theory Spec2Isabelle
  imports Complex_Main
begin

section \<open>Data model\<close>

text \<open>
  The clinic application keeps its data in two pandas tables, the appointments and the
  doctors. A table is modelled as the list of its rows, a row as a record with one field
  per column. An empty table (\<^verbatim>\<open>df.empty\<close>) is the empty list.

  A \<^verbatim>\<open>datetime.date\<close> is its proleptic Gregorian ordinal (\<^verbatim>\<open>date.toordinal()\<close>),
  so that adding \<^verbatim>\<open>timedelta(days=k)\<close> is adding \<open>k\<close>; the range limit of the
  Python type (year 9999) is not modelled. A \<^verbatim>\<open>datetime.time\<close> is the record of its four
  fields, compared as Python compares naive times: lexicographically.
\<close>

type_synonym date = int

definition weekday :: "date \<Rightarrow> int" where
  \<comment> \<open>\<^verbatim>\<open>date.weekday()\<close>: Monday is 0, Sunday is 6; ordinal 1 is a Monday.\<close>
  "weekday d = (d + 6) mod 7"

record time_of_day =
  hour :: nat
  minute :: nat
  second :: nat
  microsecond :: nat

definition time_lt :: "time_of_day \<Rightarrow> time_of_day \<Rightarrow> bool" where
  "time_lt a b =
     (hour a < hour b \<or> (hour a = hour b \<and>
       (minute a < minute b \<or> (minute a = minute b \<and>
         (second a < second b \<or> (second a = second b \<and> microsecond a < microsecond b))))))"

definition time_ge :: "time_of_day \<Rightarrow> time_of_day \<Rightarrow> bool" where
  "time_ge a b = (\<not> time_lt a b)"

record datetime =
  dt_date :: date
  dt_time :: time_of_day

record appointment =
  appointment_id :: int
  appt_doctor_id :: int
  patient_id :: string
  appointment_date :: date
  appointment_time :: time_of_day
  hour_of_day :: int
  day_of_week :: int
  scheduled_patients_count :: int
  arrived_early :: bool
  wait_time_minutes :: int
  status :: string

record doctor =
  doctor_id :: int
  doctor_name :: string
  specialty :: string
  avg_consultation_time :: int
  doctor_experience :: int
  is_available :: bool

datatype error = ZeroDivisionError | IndexError | ValueError | NotFittedError | OSError

section \<open>Appointment priority (\<^verbatim>\<open>all_appointments.py\<close>)\<close>

text \<open>
  The appointment list view adds a column \<^verbatim>\<open>date_diff\<close> (days from the current date
  to the appointment date) to every appointment row and scores the row with the local
  function \<^verbatim>\<open>calculate_priority\<close>, which reads \<^verbatim>\<open>date_diff\<close>, \<^verbatim>\<open>arrived_early\<close>
  and \<^verbatim>\<open>wait_time_minutes\<close> and returns the pair of the category and the score.
\<close>

record priority_row = appointment +
  date_diff :: int

datatype priority_category = High | Medium | Low

definition date_score :: "int \<Rightarrow> int" where
  "date_score d =
     (if d = 0 then 100
      else if 0 < d \<and> d \<le> 3 then 80
      else if 3 < d \<and> d \<le> 7 then 60
      else if 7 < d \<and> d \<le> 14 then 40
      else if d < 0 then 20
      else 30)"

definition calculate_priority :: "'a priority_row_scheme \<Rightarrow> priority_category \<times> int" where
  "calculate_priority row =
     (let s0 = date_score (date_diff row);
          s1 = (if arrived_early row then s0 + 10 else s0);
          s2 = (if wait_time_minutes row > 30 then s1 + 15 else s1)
      in if s2 \<ge> 75 then (High, s2)
         else if s2 \<ge> 50 then (Medium, s2)
         else (Low, s2))"

text \<open>The row of the appointment list that the examples of the specification score.\<close>

definition example_row :: "int \<Rightarrow> bool \<Rightarrow> int \<Rightarrow> priority_row" where
  "example_row d early wait =
     \<lparr> appointment_id = 1, appt_doctor_id = 1, patient_id = ''P1000'',
       appointment_date = 738000 + d,
       appointment_time = \<lparr> hour = 10, minute = 0, second = 0, microsecond = 0 \<rparr>,
       hour_of_day = 10, day_of_week = weekday (738000 + d),
       scheduled_patients_count = 8, arrived_early = early, wait_time_minutes = wait,
       status = ''scheduled'', date_diff = d \<rparr>"

section \<open>Schedule optimizer (\<^verbatim>\<open>schedule_optimizer.py\<close>)\<close>

text \<open>The three attributes that \<^verbatim>\<open>ScheduleOptimizer.__init__\<close> sets.\<close>

definition optimization_window_days :: nat where
  "optimization_window_days = 7"

definition peak_start_hour :: nat where
  "peak_start_hour = 17"

definition peak_end_hour :: nat where
  "peak_end_hour = 20"

subsection \<open>\<^verbatim>\<open>calculate_doctor_backlog\<close>\<close>

definition calculate_doctor_backlog :: "int \<Rightarrow> datetime \<Rightarrow> appointment list \<Rightarrow> int" where
  "calculate_doctor_backlog did current_datetime appointments_df =
     (let today = dt_date current_datetime;
          doctor_appointments =
            filter (\<lambda>a. appt_doctor_id a = did \<and> appointment_date a = today) appointments_df
      in if doctor_appointments = [] then 0
         else
           let current_time = dt_time current_datetime;
               remaining_appointments =
                 filter (\<lambda>a. time_ge (appointment_time a) current_time) doctor_appointments;
               remaining_count = length remaining_appointments
           in if remaining_count \<le> 2 then 0
              else if remaining_count \<le> 5 then 1
              else if remaining_count \<le> 8 then 2
              else if remaining_count \<le> 12 then 3
              else if remaining_count \<le> 15 then 4
              else 5)"

subsection \<open>\<^verbatim>\<open>calculate_optimal_slots\<close>\<close>

text \<open>
  A slot is the dictionary the innermost loop appends; the keys \<^verbatim>\<open>doctor_id\<close>,
  \<^verbatim>\<open>doctor_name\<close>, \<^verbatim>\<open>specialty\<close>, \<^verbatim>\<open>date\<close> and \<^verbatim>\<open>time\<close> carry the prefix
  \<open>slot_\<close> here, since a record field is a constant of the theory.
\<close>

record slot =
  slot_doctor_id :: int
  slot_doctor_name :: string
  slot_specialty :: string
  slot_date :: date
  slot_time :: string
  expected_duration :: int
  priority :: int
  is_peak_hour :: bool

text \<open>
  \<^verbatim>\<open>f"{n:02d}"\<close> for a natural number: its decimal digits, padded with a zero to two
  characters.
\<close>

definition digit_char :: "nat \<Rightarrow> char" where
  "digit_char n = ''0123456789'' ! (n mod 10)"

fun decimal :: "nat \<Rightarrow> string" where
  "decimal n = (if n < 10 then [digit_char n] else decimal (n div 10) @ [digit_char n])"

declare decimal.simps [simp del]

definition format_02d :: "nat \<Rightarrow> string" where
  "format_02d n = (let s = decimal n in if length s < 2 then ''0'' @ s else s)"

text \<open>
  \<^verbatim>\<open>int(a / b)\<close> for integers \<open>a\<close> and \<open>b \<noteq> 0\<close>: Python divides as floating point and
  \<^verbatim>\<open>int\<close> truncates toward zero. The only use is \<^verbatim>\<open>int(60 / consultation_time)\<close>, where
  the floating-point quotient truncates to the exact truncated quotient.
\<close>

definition int_of_quotient :: "int \<Rightarrow> int \<Rightarrow> int" where
  "int_of_quotient a b = sgn a * sgn b * (\<bar>a\<bar> div \<bar>b\<bar>)"

definition slots_per_hour :: "int \<Rightarrow> nat" where
  \<comment> \<open>\<^verbatim>\<open>max(1, int(60 / consultation_time))\<close>, at least 1 and so kept as a natural number\<close>
  "slots_per_hour consultation_time = nat (max 1 (int_of_quotient 60 consultation_time))"

text \<open>
  The dictionary \<^verbatim>\<open>busy_hours\<close>, from the hour to the number of the doctor's
  appointments of the day that start in it, built by the loop over those appointments.
\<close>

fun busy_hours_loop :: "appointment list \<Rightarrow> (nat \<rightharpoonup> nat) \<Rightarrow> (nat \<rightharpoonup> nat)" where
  "busy_hours_loop [] busy_hours = busy_hours"
| "busy_hours_loop (appt # rest) busy_hours =
     (let h = hour (appointment_time appt)
      in busy_hours_loop rest
           (case busy_hours h of
              Some c \<Rightarrow> busy_hours(h \<mapsto> c + 1)
            | None \<Rightarrow> busy_hours(h \<mapsto> 1)))"

definition working_hours :: "nat list" where
  \<comment> \<open>\<^verbatim>\<open>list(range(9, 21))\<close>\<close>
  "working_hours = [9..<21]"

text \<open>The body of the loop over the working hours, for one doctor, one day and one hour.\<close>

definition hour_slots ::
  "datetime \<Rightarrow> appointment list \<Rightarrow> doctor \<Rightarrow> date \<Rightarrow> (nat \<rightharpoonup> nat) \<Rightarrow> nat \<Rightarrow> slot list" where
  "hour_slots current_datetime appointments_df doctor sdate busy_hours h =
     (let consultation_time = avg_consultation_time doctor;
          sph = slots_per_hour consultation_time;
          current_bookings = (case busy_hours h of None \<Rightarrow> 0 | Some c \<Rightarrow> c)
      in if current_bookings \<ge> sph then []
         else
           let remaining_slots = sph - current_bookings;
               peak = (h \<ge> peak_start_hour \<and> h < peak_end_hour);
               priority0 = (if peak then 100 - consultation_time else 50);
               backlog_factor =
                 calculate_doctor_backlog (doctor_id doctor) current_datetime appointments_df;
               priority1 = priority0 - backlog_factor * 10
           in map (\<lambda>slot_index.
                    \<lparr> slot_doctor_id = doctor_id doctor,
                      slot_doctor_name = doctor_name doctor,
                      slot_specialty = specialty doctor,
                      slot_date = sdate,
                      slot_time = format_02d h @ '':'' @ format_02d ((60 div sph) * slot_index),
                      expected_duration = consultation_time,
                      priority = priority1,
                      is_peak_hour = peak \<rparr>)
                  [0..<remaining_slots])"

text \<open>The body of the loop over the days of the window, for one doctor and one day.\<close>

definition day_slots :: "datetime \<Rightarrow> appointment list \<Rightarrow> doctor \<Rightarrow> nat \<Rightarrow> slot list" where
  "day_slots current_datetime appointments_df doctor day_offset =
     (let sdate = dt_date current_datetime + int day_offset
      in if weekday sdate \<ge> 5 then []
         else
           let existing_appointments =
                 filter (\<lambda>a. appt_doctor_id a = doctor_id doctor \<and> appointment_date a = sdate)
                   appointments_df;
               busy_hours = busy_hours_loop existing_appointments Map.empty
           in concat (map (hour_slots current_datetime appointments_df doctor sdate busy_hours)
                        working_hours))"

text \<open>
  The body of the loop over the available doctors. The division
  \<^verbatim>\<open>60 / consultation_time\<close> raises for a consultation time of zero, before any slot of
  the doctor is made.
\<close>

definition doctor_slots :: "datetime \<Rightarrow> appointment list \<Rightarrow> doctor \<Rightarrow> error + slot list" where
  "doctor_slots current_datetime appointments_df doctor =
     (if avg_consultation_time doctor = 0 then Inl ZeroDivisionError
      else Inr (concat (map (day_slots current_datetime appointments_df doctor)
                          [0..<optimization_window_days])))"

fun collect_slots :: "datetime \<Rightarrow> appointment list \<Rightarrow> doctor list \<Rightarrow> error + slot list" where
  "collect_slots current_datetime appointments_df [] = Inr []"
| "collect_slots current_datetime appointments_df (doctor # rest) =
     (case doctor_slots current_datetime appointments_df doctor of
        Inl e \<Rightarrow> Inl e
      | Inr slots \<Rightarrow>
          (case collect_slots current_datetime appointments_df rest of
             Inl e \<Rightarrow> Inl e
           | Inr others \<Rightarrow> Inr (slots @ others)))"

text \<open>
  \<^verbatim>\<open>slots_df.sort_values('priority', ascending=False)\<close>: the rows in descending order
  of priority. The order among rows of equal priority is the library's (its default
  sort is not stable); here they keep the order of the input, and no theorem below depends
  on the order of ties.
\<close>

definition sort_values_priority :: "slot list \<Rightarrow> slot list" where
  "sort_values_priority slots = sort_key (\<lambda>s. - priority s) slots"

definition calculate_optimal_slots ::
  "datetime \<Rightarrow> appointment list \<Rightarrow> doctor list \<Rightarrow> error + slot list" where
  "calculate_optimal_slots current_datetime appointments_df doctors_df =
     (if appointments_df = [] \<or> doctors_df = [] then Inr []
      else
        let available_doctors = filter is_available doctors_df
        in if available_doctors = [] then Inr []
           else
             (case collect_slots current_datetime appointments_df available_doctors of
                Inl e \<Rightarrow> Inl e
              | Inr optimal_slots \<Rightarrow>
                  if optimal_slots \<noteq> [] then Inr (sort_values_priority optimal_slots)
                  else Inr []))"

subsection \<open>Reading a slot, and the specification's words\<close>

text \<open>
  The hour of a slot is the number its time string \<^verbatim>\<open>HH:MM\<close> starts with: the first
  two characters read as decimal digits.
\<close>

definition digit_value :: "char \<Rightarrow> nat" where
  "digit_value c = of_char c - 48"

definition slot_hour :: "'a slot_scheme \<Rightarrow> nat" where
  "slot_hour s = digit_value (slot_time s ! 0) * 10 + digit_value (slot_time s ! 1)"

text \<open>The existing bookings of a doctor on a day that start within an hour.\<close>

definition bookings_in_hour :: "appointment list \<Rightarrow> int \<Rightarrow> date \<Rightarrow> nat \<Rightarrow> nat" where
  "bookings_in_hour appointments_df did d h =
     length (filter (\<lambda>a. appt_doctor_id a = did \<and> appointment_date a = d
                          \<and> hour (appointment_time a) = h) appointments_df)"

text \<open>
  The specification's slots per hour, \<open>max(1, floor(60 / averageConsultationMinutes))\<close>,
  with the division of the real numbers.
\<close>

definition spec_slots_per_hour :: "int \<Rightarrow> int" where
  "spec_slots_per_hour c = max 1 \<lfloor>60 / real_of_int c\<rfloor>"

text \<open>
  The specification's backlog: the count of the doctor's appointments on the date of
  \<open>asOf\<close> with a time of day at or after the time of \<open>asOf\<close>, and the step table on it.
\<close>

definition remaining_today :: "appointment list \<Rightarrow> int \<Rightarrow> datetime \<Rightarrow> nat" where
  "remaining_today appointments_df did asOf =
     length (filter (\<lambda>a. appt_doctor_id a = did \<and> appointment_date a = dt_date asOf
                          \<and> time_ge (appointment_time a) (dt_time asOf)) appointments_df)"

definition spec_backlog_level :: "nat \<Rightarrow> int" where
  "spec_backlog_level n =
     (if n \<le> 2 then 0 else if n \<le> 5 then 1 else if n \<le> 8 then 2
      else if n \<le> 12 then 3 else if n \<le> 15 then 4 else 5)"

subsection \<open>\<^verbatim>\<open>get_recommendations\<close>\<close>

text \<open>
  The source returns a list of message strings. Each constructor of \<open>finding\<close> stands for
  one of its messages and carries the values the message interpolates: the insufficient
  data message, the no appointments message, the overbooked doctor (name, specialty,
  count), the congestion (upcoming count), the underutilized doctor (name, specialty,
  count), the early arrivals (percentage), the load imbalance (specialty), and the
  balanced message.

  The overbooking threshold and the early-arrival percentage are floating-point
  computations in the source; here they are computed in the real numbers, so a count
  exactly at a threshold may be decided differently by the source.
\<close>

datatype finding =
    InsufficientData
  | NoAppointmentsToday
  | Overbooked string string nat
  | HighCongestion nat
  | Underutilized string string nat
  | EarlyArrivals real
  | LoadImbalance string
  | Balanced

text \<open>
  \<^verbatim>\<open>Series.unique()\<close>: the distinct values in the order of their first appearance.
  \<^verbatim>\<open>Series.value_counts()\<close>: each distinct value with the number of its occurrences,
  in descending order of the count (the order among equal counts is the library's).
\<close>

definition unique :: "'a list \<Rightarrow> 'a list" where
  "unique xs = rev (remdups (rev xs))"

definition value_counts :: "'a list \<Rightarrow> ('a \<times> nat) list" where
  "value_counts xs =
     sort_key (\<lambda>(k, c). - int c) (map (\<lambda>k. (k, length (filter (\<lambda>x. x = k) xs))) (unique xs))"

text \<open>
  Check 1, overbooked doctors: the loop over the counts of today's appointments by doctor.
  \<^verbatim>\<open>.iloc[0]\<close> raises for a doctor id that no row of the doctors has. The average
  consultation time read from that row is a numpy integer, so for an average of zero the
  quotient \<^verbatim>\<open>(working_hours * 60) / avg_time\<close> is infinite and does not raise: no count
  exceeds it, and the doctor is not reported.
\<close>

fun overbooked_loop :: "doctor list \<Rightarrow> (int \<times> nat) list \<Rightarrow> error + finding list" where
  "overbooked_loop doctors_df [] = Inr []"
| "overbooked_loop doctors_df ((did, count) # rest) =
     (case filter (\<lambda>d. doctor_id d = did) doctors_df of
        [] \<Rightarrow> Inl IndexError
      | doctor_info # _ \<Rightarrow>
          let avg_time = avg_consultation_time doctor_info;
              working = 9;
              exceeds = (if avg_time = 0 then False
                         else real count > ((working * 60) / real_of_int avg_time) * 0.85);
              recs = (if exceeds
                      then [Overbooked (doctor_name doctor_info) (specialty doctor_info) count]
                      else [])
          in (case overbooked_loop doctors_df rest of
                Inl e \<Rightarrow> Inl e
              | Inr others \<Rightarrow> Inr (recs @ others)))"

text \<open>
  Check 2, peak hour congestion. \<open>add_hours\<close> is the time of day of
  \<^verbatim>\<open>current_datetime + timedelta(hours=k)\<close>.
\<close>

definition add_hours :: "time_of_day \<Rightarrow> nat \<Rightarrow> time_of_day" where
  "add_hours t k = t\<lparr> hour := (hour t + k) mod 24 \<rparr>"

definition congestion_check :: "datetime \<Rightarrow> appointment list \<Rightarrow> finding list" where
  "congestion_check current_datetime appointments_df =
     (let current_hour = hour (dt_time current_datetime)
      in if peak_start_hour \<le> current_hour \<and> current_hour < peak_end_hour
         then
           let next_2_hours = add_hours (dt_time current_datetime) 2;
               upcoming_appointments =
                 filter (\<lambda>a. appointment_date a = dt_date current_datetime
                              \<and> time_ge (appointment_time a) (dt_time current_datetime)
                              \<and> time_lt (appointment_time a) next_2_hours) appointments_df;
               upcoming_count = length upcoming_appointments
           in if upcoming_count > 30 then [HighCongestion upcoming_count] else []
         else [])"

text \<open>Check 3, underutilized doctors: the loop over the rows of the doctors.\<close>

definition underutilized_check :: "appointment list \<Rightarrow> doctor list \<Rightarrow> finding list" where
  "underutilized_check today_appointments doctors_df =
     concat (map (\<lambda>doctor.
        let doctor_appointments =
              filter (\<lambda>a. appt_doctor_id a = doctor_id doctor) today_appointments
        in if length doctor_appointments < 5 \<and> is_available doctor
           then [Underutilized (doctor_name doctor) (specialty doctor) (length doctor_appointments)]
           else []) doctors_df)"

text \<open>Check 4, early arrivals.\<close>

definition early_arrival_check :: "appointment list \<Rightarrow> finding list" where
  "early_arrival_check today_appointments =
     (if today_appointments \<noteq> []
      then
        let early_arrivals = filter arrived_early today_appointments;
            early_arrival_percentage =
              (real (length early_arrivals) / real (length today_appointments)) * 100
        in if early_arrival_percentage > 40 then [EarlyArrivals early_arrival_percentage] else []
      else [])"

text \<open>
  Check 5, load balancing: the loop over the specialties. The inner join of today's
  appointments with the columns \<^verbatim>\<open>doctor_id\<close> and \<^verbatim>\<open>specialty\<close> of the doctors has
  one row for every pair of an appointment and a doctor row of the same doctor id.
\<close>

definition specialty_appointment_ids :: "appointment list \<Rightarrow> doctor list \<Rightarrow> string \<Rightarrow> int list" where
  "specialty_appointment_ids today_appointments doctors_df sp =
     map (\<lambda>(a, s). appt_doctor_id a)
       (filter (\<lambda>(a, s). s = sp)
          (concat (map (\<lambda>a. map (\<lambda>d. (a, specialty d))
                              (filter (\<lambda>d. doctor_id d = appt_doctor_id a) doctors_df))
                    today_appointments)))"

definition imbalance_check :: "appointment list \<Rightarrow> doctor list \<Rightarrow> finding list" where
  "imbalance_check today_appointments doctors_df =
     concat (map (\<lambda>sp.
        let specialty_doctors = filter (\<lambda>d. specialty d = sp) doctors_df
        in if length specialty_doctors > 1
           then
             let ids = specialty_appointment_ids today_appointments doctors_df sp
             in if ids \<noteq> []
                then
                  let appointments_per_doctor = map snd (value_counts ids);
                      max_appointments = Max (set appointments_per_doctor);
                      min_appointments = Min (set appointments_per_doctor)
                  in if max_appointments > 2 * min_appointments then [LoadImbalance sp] else []
                else []
           else []) (unique (map specialty doctors_df)))"

definition get_recommendations ::
  "datetime \<Rightarrow> appointment list \<Rightarrow> doctor list \<Rightarrow> error + finding list" where
  "get_recommendations current_datetime appointments_df doctors_df =
     (if appointments_df = [] \<or> doctors_df = [] then Inr [InsufficientData]
      else
        let today = dt_date current_datetime;
            today_appointments = filter (\<lambda>a. appointment_date a = today) appointments_df
        in if today_appointments = [] then Inr [NoAppointmentsToday]
           else
             let doctor_appointment_counts = value_counts (map appt_doctor_id today_appointments)
             in (case overbooked_loop doctors_df doctor_appointment_counts of
                   Inl e \<Rightarrow> Inl e
                 | Inr overbooked \<Rightarrow>
                     let recommendations =
                           overbooked
                           @ congestion_check current_datetime appointments_df
                           @ underutilized_check today_appointments doctors_df
                           @ early_arrival_check today_appointments
                           @ imbalance_check today_appointments doctors_df
                     in if length recommendations > 5 then Inr (take 5 recommendations)
                        else if length recommendations = 0 then Inr [Balanced]
                        else Inr recommendations))"

subsection \<open>Reading the recommendations\<close>

text \<open>
  The place of a finding in the order of the five checks (0 for the three messages that no
  check produces), today's appointments, and the list \<^verbatim>\<open>recommendations\<close> as it stands
  before the final truncation, given the findings of the first check.
\<close>

fun heuristic_rank :: "finding \<Rightarrow> nat" where
  "heuristic_rank (Overbooked n s c) = 1"
| "heuristic_rank (HighCongestion c) = 2"
| "heuristic_rank (Underutilized n s c) = 3"
| "heuristic_rank (EarlyArrivals p) = 4"
| "heuristic_rank (LoadImbalance s) = 5"
| "heuristic_rank f = 0"

definition todays :: "datetime \<Rightarrow> appointment list \<Rightarrow> appointment list" where
  "todays asOf appointments_df = filter (\<lambda>a. appointment_date a = dt_date asOf) appointments_df"

definition raw_findings :: "datetime \<Rightarrow> appointment list \<Rightarrow> doctor list \<Rightarrow> finding list \<Rightarrow> finding list" where
  "raw_findings asOf appointments_df doctors_df overbooked =
     overbooked
     @ congestion_check asOf appointments_df
     @ underutilized_check (todays asOf appointments_df) doctors_df
     @ early_arrival_check (todays asOf appointments_df)
     @ imbalance_check (todays asOf appointments_df) doctors_df"

text \<open>
  The specification's words for the fifth check: the number of today's appointments of
  each doctor of a specialty, and the imbalance of a specialty with at least two doctors,
  the largest of these numbers exceeding twice the smallest.
\<close>

definition today_count :: "datetime \<Rightarrow> appointment list \<Rightarrow> int \<Rightarrow> nat" where
  "today_count asOf appointments_df did =
     length (filter (\<lambda>a. appt_doctor_id a = did) (todays asOf appointments_df))"

definition specialty_counts :: "datetime \<Rightarrow> appointment list \<Rightarrow> doctor list \<Rightarrow> string \<Rightarrow> nat list" where
  "specialty_counts asOf appointments_df doctors_df sp =
     map (\<lambda>d. today_count asOf appointments_df (doctor_id d))
       (filter (\<lambda>d. specialty d = sp) doctors_df)"

definition spec_imbalanced :: "datetime \<Rightarrow> appointment list \<Rightarrow> doctor list \<Rightarrow> string \<Rightarrow> bool" where
  "spec_imbalanced asOf appointments_df doctors_df sp =
     (length (filter (\<lambda>d. specialty d = sp) doctors_df) \<ge> 2
      \<and> Max (set (specialty_counts asOf appointments_df doctors_df sp))
          > 2 * Min (set (specialty_counts asOf appointments_df doctors_df sp)))"

section \<open>Wait time predictor (\<^verbatim>\<open>wait_time_predictor.py\<close>)\<close>

text \<open>
  A row of the feature matrix: the seven columns that \<^verbatim>\<open>preprocess_data\<close> and
  \<^verbatim>\<open>predict_batch\<close> select from the left join of the appointments with the doctors.
  The three columns of the doctor are missing (\<open>None\<close>) in a row whose appointment names a
  doctor id that no row of the doctors has.
\<close>

record features =
  f_hour_of_day :: int
  f_day_of_week :: int
  f_specialty :: "string option"
  f_doctor_experience :: "int option"
  f_avg_consultation_time :: "int option"
  f_scheduled_patients_count :: int
  f_arrived_early :: bool

text \<open>
  The scikit-learn and joblib calls of the class are parameters of the model, with \<open>None\<close>
  for a call that raises: the split of the training rows (\<^verbatim>\<open>train_test_split\<close> with
  \<^verbatim>\<open>test_size=0.2, random_state=42\<close>), the fit of the pipeline on the training rows
  (its result \<open>'m\<close> stands for the fitted pipeline), the feature importances of a fitted
  pipeline, saving it (\<^verbatim>\<open>os.makedirs\<close> and \<^verbatim>\<open>joblib.dump\<close>; \<open>False\<close> when that
  raises), and its \<^verbatim>\<open>predict\<close> on a feature matrix. Predicted wait times are real
  numbers here, floating-point numbers in the source.
\<close>

record 'm sklearn =
  train_test_split ::
    "(features \<times> int) list \<Rightarrow> ((features \<times> int) list \<times> (features \<times> int) list) option"
  fit :: "(features \<times> int) list \<Rightarrow> 'm option"
  feature_importances :: "'m \<Rightarrow> (string \<times> real) list"
  dump :: "'m \<Rightarrow> bool"
  model_predict :: "'m \<Rightarrow> features list \<Rightarrow> real list option"

text \<open>
  The \<^verbatim>\<open>Pipeline\<close> object in \<^verbatim>\<open>self.model\<close>: as constructed and not yet fitted (also
  when its fit was started and raised), or fitted. The state of a \<^verbatim>\<open>WaitTimePredictor\<close>
  is the record of its three mutable attributes.
\<close>

datatype 'm pipeline = Unfitted | Fitted 'm

record 'm predictor =
  model :: "'m pipeline option"
  model_trained :: bool
  feature_importance :: "(string \<times> real) list option"

definition init_predictor :: "'m option \<Rightarrow> 'm predictor" where
  \<comment> \<open>\<^verbatim>\<open>__init__\<close>; the argument is the pipeline that the model file holds, if it loads\<close>
  "init_predictor stored =
     (case stored of
        None \<Rightarrow> \<lparr> model = None, model_trained = False, feature_importance = None \<rparr>
      | Some m \<Rightarrow> \<lparr> model = Some (Fitted m), model_trained = True, feature_importance = None \<rparr>)"

text \<open>
  \<^verbatim>\<open>appointments_df.merge(doctors_df, on='doctor_id', how='left')\<close>: every appointment
  with every doctor row of its doctor id, or alone when there is none.
\<close>

definition merge_left :: "appointment list \<Rightarrow> doctor list \<Rightarrow> (appointment \<times> doctor option) list" where
  "merge_left appointments_df doctors_df =
     concat (map (\<lambda>a.
        (case filter (\<lambda>d. doctor_id d = appt_doctor_id a) doctors_df of
           [] \<Rightarrow> [(a, None)]
         | ds \<Rightarrow> map (\<lambda>d. (a, Some d)) ds)) appointments_df)"

definition feature_row :: "appointment \<times> doctor option \<Rightarrow> features" where
  "feature_row r =
     (case r of (a, d) \<Rightarrow>
        \<lparr> f_hour_of_day = hour_of_day a, f_day_of_week = day_of_week a,
          f_specialty = map_option specialty d,
          f_doctor_experience = map_option doctor_experience d,
          f_avg_consultation_time = map_option avg_consultation_time d,
          f_scheduled_patients_count = scheduled_patients_count a,
          f_arrived_early = arrived_early a \<rparr>)"

definition preprocess_data :: "appointment list \<Rightarrow> doctor list \<Rightarrow> (features \<times> int) list" where
  \<comment> \<open>the pairs of a row of \<open>X\<close> and its entry of \<open>y\<close>\<close>
  "preprocess_data appointments_df doctors_df =
     (if appointments_df \<noteq> [] \<and> doctors_df \<noteq> []
      then map (\<lambda>r. (feature_row r, wait_time_minutes (fst r)))
             (merge_left appointments_df doctors_df)
      else [])"

text \<open>
  \<^verbatim>\<open>train\<close> returns the pair of its outcome (the returned boolean, or the exception
  that ends the call) and the state it leaves behind.
\<close>

definition train ::
  "'m sklearn \<Rightarrow> 'm predictor \<Rightarrow> appointment list \<Rightarrow> doctor list
     \<Rightarrow> (error + bool) \<times> 'm predictor" where
  "train lib self appointments_df doctors_df =
     (if appointments_df = [] \<or> doctors_df = [] then (Inr False, self)
      else
        let rows = preprocess_data appointments_df doctors_df
        in if rows = [] then (Inr False, self)
           else
             let self1 = self\<lparr> model := Some Unfitted \<rparr>
             in (case train_test_split lib rows of
                   None \<Rightarrow> (Inl ValueError, self1)
                 | Some (training, testing) \<Rightarrow>
                     (case fit lib training of
                        None \<Rightarrow> (Inl ValueError, self1)
                      | Some m \<Rightarrow>
                          let self2 = self1\<lparr> model := Some (Fitted m) \<rparr>;
                              self3 = self2\<lparr> feature_importance :=
                                        Some (sort_key (\<lambda>(name, w). - w)
                                                (feature_importances lib m)) \<rparr>
                          in if \<not> dump lib m then (Inl OSError, self3)
                             else (Inr True, self3\<lparr> model_trained := True \<rparr>))))"

text \<open>\<^verbatim>\<open>self.model.predict(features)\<close>: a pipeline that is not fitted raises.\<close>

definition pipeline_predict :: "'m sklearn \<Rightarrow> 'm pipeline \<Rightarrow> features list \<Rightarrow> error + real list" where
  "pipeline_predict lib p fs =
     (case p of
        Unfitted \<Rightarrow> Inl NotFittedError
      | Fitted m \<Rightarrow>
          (case model_predict lib m fs of None \<Rightarrow> Inl ValueError | Some ps \<Rightarrow> Inr ps))"

text \<open>
  \<^verbatim>\<open>predict\<close>: every exception of the \<^verbatim>\<open>try\<close> block is caught, also the
  \<^verbatim>\<open>IndexError\<close> of \<^verbatim>\<open>prediction[0]\<close> on an empty array, so the call always returns a
  number.
\<close>

definition predict :: "'m sklearn \<Rightarrow> 'm predictor \<Rightarrow> features list \<Rightarrow> real" where
  "predict lib self fs =
     (if \<not> model_trained self \<or> model self = None then 30
      else
        (case pipeline_predict lib (the (model self)) fs of
           Inl e \<Rightarrow> 30
         | Inr prediction \<Rightarrow>
             (case prediction of [] \<Rightarrow> 30 | x # _ \<Rightarrow> max 0 x)))"



section \<open>Example data\<close>

text \<open>
  A Thursday morning (ordinal 738000, 10:30), a cardiologist with four appointments that
  day, three of them still ahead, and a colleague who is not available.
\<close>

definition ex_now :: datetime where
  "ex_now = \<lparr> dt_date = 738000, dt_time = \<lparr> hour = 10, minute = 30, second = 0, microsecond = 0 \<rparr> \<rparr>"

definition ex_doctor :: "int \<Rightarrow> string \<Rightarrow> int \<Rightarrow> bool \<Rightarrow> doctor" where
  "ex_doctor i sp c av = \<lparr> doctor_id = i, doctor_name = ''Priya Rao'', specialty = sp,
     avg_consultation_time = c, doctor_experience = 10, is_available = av \<rparr>"

definition ex_appt :: "int \<Rightarrow> int \<Rightarrow> date \<Rightarrow> nat \<Rightarrow> nat \<Rightarrow> bool \<Rightarrow> appointment" where
  "ex_appt i did d h m early = \<lparr> appointment_id = i, appt_doctor_id = did, patient_id = ''P1000'',
       appointment_date = d,
       appointment_time = \<lparr> hour = h, minute = m, second = 0, microsecond = 0 \<rparr>,
       hour_of_day = int h, day_of_week = weekday d,
       scheduled_patients_count = 8, arrived_early = early, wait_time_minutes = 12,
       status = ''scheduled'' \<rparr>"

definition ex_slot :: "date \<Rightarrow> string \<Rightarrow> int \<Rightarrow> bool \<Rightarrow> slot" where
  "ex_slot d t p peak = \<lparr> slot_doctor_id = 1, slot_doctor_name = ''Priya Rao'',
     slot_specialty = ''Cardiology'', slot_date = d, slot_time = t,
     expected_duration = 60, priority = p, is_peak_hour = peak \<rparr>"

definition ex_appts :: "appointment list" where
  "ex_appts = [ex_appt 1 1 738000 11 0 False, ex_appt 2 1 738000 14 30 True,
               ex_appt 3 1 738000 17 15 True, ex_appt 4 1 738000 9 0 False]"

definition ex_docs :: "doctor list" where
  "ex_docs = [ex_doctor 1 ''Cardiology'' 60 True, ex_doctor 2 ''Cardiology'' 20 False]"

text \<open>
  The scenario of the specification: two cardiologists with ten and three appointments
  today; and four dermatologists without any appointment.
\<close>

definition scenario_appts :: "appointment list" where
  "scenario_appts = map (\<lambda>i. ex_appt (int i) 1 738000 (9 + i) 0 False) [0..<10]
                  @ map (\<lambda>i. ex_appt (10 + int i) 2 738000 (9 + i) 30 False) [0..<3]"

definition busy_doctor_appts :: "appointment list" where
  \<comment> \<open>the ten appointments of the first cardiologist alone\<close>
  "busy_doctor_appts = map (\<lambda>i. ex_appt (int i) 1 738000 (9 + i) 0 False) [0..<10]"

definition scenario_docs :: "doctor list" where
  "scenario_docs = [ex_doctor 1 ''Cardiology'' 20 True, ex_doctor 2 ''Cardiology'' 20 True]"

definition idle_docs :: "doctor list" where
  "idle_docs = map (\<lambda>i. ex_doctor (3 + int i) ''Dermatology'' 15 True) [0..<4]"

text \<open>
  An example library for the predictor. Its split has the sizes of scikit-learn's for
  \<^verbatim>\<open>test_size=0.2\<close>: \<open>ceil(0.2 n)\<close> test rows of \<open>n\<close>, and an error when no training
  row remains, as for a single row. Its fitted pipeline is the mean wait time of the
  training rows, rounded down, which it predicts for every row.
\<close>

definition ex_sklearn :: "int sklearn" where
  "ex_sklearn =
     \<lparr> train_test_split = (\<lambda>rows.
          let n = length rows; n_test = (n + 4) div 5; n_train = n - n_test
          in if n_train = 0 then None else Some (take n_train rows, drop n_train rows)),
       fit = (\<lambda>rows. if rows = [] then None
                      else Some (sum_list (map snd rows) div int (length rows))),
       feature_importances = (\<lambda>m. [(''hour_of_day'', 1)]),
       dump = (\<lambda>m. True),
       model_predict = (\<lambda>m fs. Some (map (\<lambda>f. real_of_int m) fs)) \<rparr>"

definition ex_features :: "features list" where
  "ex_features = [feature_row (ex_appt 1 1 738000 11 0 False, Some (ex_doctor 1 ''Cardiology'' 60 True))]"

section \<open>Theorems\<close>

subsection \<open>Appointment priority\<close>

text \<open>
  C3. \<^verbatim>\<open>calculate_priority\<close> is a total function of the row (it has no failing branch),
  and for every date difference, early-arrival flag and wait time the score it returns is
  the base score of the date difference (100 for 0, 80 for 1 to 3, 60 for 4 to 7, 40 for 8
  to 14, 30 beyond 14, 20 for a negative difference) plus 10 if the patient arrived early
  plus 15 if the wait time is above 30; the category is High exactly when the score is at
  least 75, Medium exactly when it is at least 50 and below 75, Low exactly when it is
  below 50.
\<close>

theorem calculate_priority_score_and_category:
  fixes row :: "'a priority_row_scheme"
  defines "d \<equiv> date_diff row"
  defines "score \<equiv> snd (calculate_priority row)"
  defines "category \<equiv> fst (calculate_priority row)"
  shows "score =
           (if d = 0 then 100 else if 0 < d \<and> d \<le> 3 then 80 else if 3 < d \<and> d \<le> 7 then 60
            else if 7 < d \<and> d \<le> 14 then 40 else if d > 14 then 30 else 20)
           + (if arrived_early row then 10 else 0)
           + (if wait_time_minutes row > 30 then 15 else 0)
         \<and> (category = High) = (score \<ge> 75)
         \<and> (category = Medium) = (50 \<le> score \<and> score < 75)
         \<and> (category = Low) = (score < 50)"
  unfolding d_def score_def category_def calculate_priority_def date_score_def Let_def
  by auto

text \<open>
  C4. The three examples of the specification: a row of today with no early arrival and
  no wait scores 100 and is High; a row two days ahead whose patient arrived early and
  waited 35 minutes scores 105 and is High. The row ten days ahead with no early arrival
  and no wait is Low, but with score 40, the base score of a date difference between 8
  and 14, and not the 30 the example names.
\<close>

theorem calculate_priority_examples:
  "calculate_priority (example_row 0 False 0) = (High, 100)
   \<and> calculate_priority (example_row 10 False 0) = (Low, 40)
   \<and> calculate_priority (example_row 2 True 35) = (High, 105)"
  by (simp add: calculate_priority_def date_score_def example_row_def)

theorem calculate_priority_ten_days_counterexample:
  "\<not> (calculate_priority (example_row 0 False 0) = (High, 100)
      \<and> calculate_priority (example_row 10 False 0) = (Low, 30)
      \<and> calculate_priority (example_row 2 True 35) = (High, 105))"
  by (simp add: calculate_priority_def date_score_def example_row_def)

subsection \<open>Optimal slots\<close>

lemma busy_hours_loop_count:
  "(case busy_hours_loop xs m h of None \<Rightarrow> 0 | Some c \<Rightarrow> c) =
   (case m h of None \<Rightarrow> 0 | Some c \<Rightarrow> c) + length (filter (\<lambda>a. hour (appointment_time a) = h) xs)"
  by (induction xs arbitrary: m) (auto simp: Let_def split: option.splits)

lemma busy_hours_bookings:
  "(case busy_hours_loop (filter (\<lambda>a. appt_doctor_id a = did \<and> appointment_date a = d) appts) Map.empty h
      of None \<Rightarrow> 0 | Some c \<Rightarrow> c) = bookings_in_hour appts did d h"
  by (simp add: busy_hours_loop_count bookings_in_hour_def conj_commute conj_left_commute cong: conj_cong)

lemma format_02d_values:
  "format_02d 9 = ''09''" "format_02d 10 = ''10''" "format_02d 11 = ''11''"
  "format_02d 12 = ''12''" "format_02d 13 = ''13''" "format_02d 14 = ''14''"
  "format_02d 15 = ''15''" "format_02d 16 = ''16''" "format_02d 17 = ''17''"
  "format_02d 18 = ''18''" "format_02d 19 = ''19''" "format_02d 20 = ''20''"
  by (simp_all add: format_02d_def decimal.simps digit_char_def)

lemma working_hours_cases:
  assumes "h \<in> set working_hours"
  shows "h = 9 \<or> h = 10 \<or> h = 11 \<or> h = 12 \<or> h = 13 \<or> h = 14 \<or> h = 15 \<or> h = 16
      \<or> h = 17 \<or> h = 18 \<or> h = 19 \<or> h = 20"
proof -
  from assms have "h \<in> {9..<21}" unfolding working_hours_def set_upt .
  then have "9 \<le> h \<and> h < 21" unfolding atLeastLessThan_iff .
  then show ?thesis by arith
qed

lemma format_02d_working_hour:
  assumes "h \<in> set working_hours"
  shows "digit_value ((format_02d h @ rest) ! 0) * 10 + digit_value ((format_02d h @ rest) ! 1) = h"
  using working_hours_cases [OF assms]
  by (elim disjE) (simp_all add: format_02d_values digit_value_def)

lemma slots_per_hour_spec:
  assumes "c \<noteq> 0"
  shows "int (slots_per_hour c) = spec_slots_per_hour c"
proof (cases "c > 0")
  case True
  then have "\<lfloor>60 / real_of_int c\<rfloor> = 60 div c"
    by (metis floor_divide_of_int_eq of_int_numeral)
  with True show ?thesis
    by (simp add: slots_per_hour_def spec_slots_per_hour_def int_of_quotient_def)
next
  case False
  with assms have neg: "c < 0" by simp
  then have "60 / real_of_int c < 0" by (simp add: divide_neg_pos)
  then have "\<lfloor>60 / real_of_int c\<rfloor> \<le> 0" by linarith
  moreover have "int_of_quotient 60 c \<le> 0"
    using neg by (simp add: int_of_quotient_def div_int_pos_iff)
  ultimately show ?thesis
    by (simp add: slots_per_hour_def spec_slots_per_hour_def)
qed


lemma calculate_doctor_backlog_spec:
  "calculate_doctor_backlog did now appts = spec_backlog_level (remaining_today appts did now)"
proof -
  have eq: "filter (\<lambda>a. time_ge (appointment_time a) (dt_time now))
              (filter (\<lambda>a. appt_doctor_id a = did \<and> appointment_date a = dt_date now) appts)
          = filter (\<lambda>a. appt_doctor_id a = did \<and> appointment_date a = dt_date now
                          \<and> time_ge (appointment_time a) (dt_time now)) appts"
    by (simp add: conj_commute conj_left_commute cong: conj_cong)
  show ?thesis
  proof (cases "filter (\<lambda>a. appt_doctor_id a = did \<and> appointment_date a = dt_date now) appts = []")
    case True
    then have "filter (\<lambda>a. appt_doctor_id a = did \<and> appointment_date a = dt_date now
                          \<and> time_ge (appointment_time a) (dt_time now)) appts = []"
      by (auto simp: filter_empty_conv)
    with True show ?thesis
      by (simp add: calculate_doctor_backlog_def remaining_today_def spec_backlog_level_def)
  next
    case False
    then show ?thesis
      unfolding calculate_doctor_backlog_def remaining_today_def spec_backlog_level_def Let_def eq
      by simp
  qed
qed

lemma slot_hour_format:
  assumes "h \<in> set working_hours" and "slot_time s = format_02d h @ rest"
  shows "slot_hour s = h"
  using format_02d_working_hour [OF assms(1), of rest] assms(2)
  by (simp add: slot_hour_def)

lemma hour_slots_member:
  assumes "s \<in> set (hour_slots now appts d sdate busy h)" and "h \<in> set working_hours"
  shows "slot_doctor_id s = doctor_id d" and "slot_date s = sdate"
    and "expected_duration s = avg_consultation_time d"
    and "slot_hour s = h"
    and "(case busy h of None \<Rightarrow> 0 | Some c \<Rightarrow> c) < slots_per_hour (avg_consultation_time d)"
    and "is_peak_hour s = (17 \<le> h \<and> h < 20)"
    and "priority s = (if 17 \<le> h \<and> h < 20 then 100 - avg_consultation_time d else 50)
                       - 10 * calculate_doctor_backlog (doctor_id d) now appts"
proof -
  let ?sph = "slots_per_hour (avg_consultation_time d)"
  let ?cur = "case busy h of None \<Rightarrow> 0 | Some c \<Rightarrow> c"
  have open_hour: "\<not> ?cur \<ge> ?sph"
  proof
    assume "?cur \<ge> ?sph"
    then have "hour_slots now appts d sdate busy h = []"
      by (simp add: hour_slots_def Let_def)
    with assms(1) show False by simp
  qed
  then show "?cur < ?sph" by simp
  from assms(1) open_hour obtain i where
    s: "s = \<lparr> slot_doctor_id = doctor_id d, slot_doctor_name = doctor_name d,
             slot_specialty = specialty d, slot_date = sdate,
             slot_time = format_02d h @ '':'' @ format_02d ((60 div ?sph) * i),
             expected_duration = avg_consultation_time d,
             priority = (if h \<ge> peak_start_hour \<and> h < peak_end_hour
                         then 100 - avg_consultation_time d else 50)
                        - calculate_doctor_backlog (doctor_id d) now appts * 10,
             is_peak_hour = (h \<ge> peak_start_hour \<and> h < peak_end_hour) \<rparr>"
    by (auto simp: hour_slots_def Let_def)
  show "slot_doctor_id s = doctor_id d" by (simp add: s)
  show "slot_date s = sdate" by (simp add: s)
  show "expected_duration s = avg_consultation_time d" by (simp add: s)
  have "slot_time s = format_02d h @ ('':'' @ format_02d ((60 div ?sph) * i))"
    by (simp add: s)
  then show "slot_hour s = h" by (rule slot_hour_format [OF assms(2)])
  show "is_peak_hour s = (17 \<le> h \<and> h < 20)"
    by (simp add: s peak_start_hour_def peak_end_hour_def)
  show "priority s = (if 17 \<le> h \<and> h < 20 then 100 - avg_consultation_time d else 50)
                       - 10 * calculate_doctor_backlog (doctor_id d) now appts"
    by (simp add: s peak_start_hour_def peak_end_hour_def)
qed

lemma day_slots_member:
  assumes "s \<in> set (day_slots now appts d k)"
  shows "slot_date s = dt_date now + int k" and "weekday (slot_date s) < 5"
    and "slot_doctor_id s = doctor_id d"
    and "expected_duration s = avg_consultation_time d"
    and "slot_hour s \<in> set working_hours"
    and "bookings_in_hour appts (doctor_id d) (slot_date s) (slot_hour s)
           < slots_per_hour (avg_consultation_time d)"
    and "is_peak_hour s = (17 \<le> slot_hour s \<and> slot_hour s < 20)"
    and "priority s = (if 17 \<le> slot_hour s \<and> slot_hour s < 20
                       then 100 - avg_consultation_time d else 50)
                       - 10 * calculate_doctor_backlog (doctor_id d) now appts"
proof -
  let ?sdate = "dt_date now + int k"
  let ?busy = "busy_hours_loop
      (filter (\<lambda>a. appt_doctor_id a = doctor_id d \<and> appointment_date a = ?sdate) appts) Map.empty"
  from assms have wd: "weekday ?sdate < 5"
    and "\<exists>h\<in>set working_hours. s \<in> set (hour_slots now appts d ?sdate ?busy h)"
    by (auto simp: day_slots_def Let_def split: if_splits)
  then obtain h where h: "h \<in> set working_hours"
    and s: "s \<in> set (hour_slots now appts d ?sdate ?busy h)" by blast
  note m = hour_slots_member [OF s h]
  show "slot_date s = dt_date now + int k" by (rule m(2))
  then show "weekday (slot_date s) < 5" using wd by simp
  show "slot_doctor_id s = doctor_id d" by (rule m(1))
  show "expected_duration s = avg_consultation_time d" by (rule m(3))
  show "slot_hour s \<in> set working_hours" using m(4) h by simp
  show "bookings_in_hour appts (doctor_id d) (slot_date s) (slot_hour s)
           < slots_per_hour (avg_consultation_time d)"
    using m(5) by (simp add: busy_hours_bookings m(2) m(4))
  show "is_peak_hour s = (17 \<le> slot_hour s \<and> slot_hour s < 20)" using m(6) m(4) by simp
  show "priority s = (if 17 \<le> slot_hour s \<and> slot_hour s < 20
                       then 100 - avg_consultation_time d else 50)
                       - 10 * calculate_doctor_backlog (doctor_id d) now appts"
    using m(7) m(4) by simp
qed

lemma doctor_slots_member:
  assumes "doctor_slots now appts d = Inr ys" and "s \<in> set ys"
  shows "avg_consultation_time d \<noteq> 0 \<and> (\<exists>k<7. s \<in> set (day_slots now appts d k))"
proof -
  from assms(1) have nz: "avg_consultation_time d \<noteq> 0"
    and ys: "ys = concat (map (day_slots now appts d) [0..<optimization_window_days])"
    by (auto simp: doctor_slots_def split: if_splits)
  from assms(2) ys obtain k where "k < 7" "s \<in> set (day_slots now appts d k)"
    by (auto simp: optimization_window_days_def)
  with nz show ?thesis by blast
qed

lemma collect_slots_member:
  assumes "collect_slots now appts ds = Inr xs" and "s \<in> set xs"
  shows "\<exists>d\<in>set ds. \<exists>ys. doctor_slots now appts d = Inr ys \<and> s \<in> set ys"
  using assms
proof (induction ds arbitrary: xs)
  case Nil
  then show ?case by simp
next
  case (Cons d ds)
  from Cons.prems(1) obtain ys zs where ys: "doctor_slots now appts d = Inr ys"
    and zs: "collect_slots now appts ds = Inr zs" and xs: "xs = ys @ zs"
    by (auto split: sum.splits)
  from Cons.prems(2) xs consider "s \<in> set ys" | "s \<in> set zs" by auto
  then show ?case
  proof cases
    case 1
    with ys show ?thesis by auto
  next
    case 2
    from Cons.IH [OF zs 2] show ?thesis by auto
  qed
qed

lemma set_sort_values_priority: "set (sort_values_priority xs) = set xs"
  by (simp add: sort_values_priority_def)

lemma calculate_optimal_slots_member:
  assumes "calculate_optimal_slots now appts docs = Inr slots" and "s \<in> set slots"
  shows "\<exists>d\<in>set docs. is_available d \<and> avg_consultation_time d \<noteq> 0
           \<and> (\<exists>k<7. s \<in> set (day_slots now appts d k))"
proof -
  from assms obtain xs where xs: "collect_slots now appts (filter is_available docs) = Inr xs"
    and s: "s \<in> set xs"
    by (auto simp: calculate_optimal_slots_def Let_def set_sort_values_priority
        split: if_splits sum.splits)
  from collect_slots_member [OF xs s] obtain d ys where "d \<in> set docs" "is_available d"
    "doctor_slots now appts d = Inr ys" "s \<in> set ys" by auto
  with doctor_slots_member [of now appts d ys s] show ?thesis by blast
qed

lemma sort_values_priority_sorted:
  "sorted_wrt (\<lambda>a b. priority a \<ge> priority b) (sort_values_priority xs)"
proof -
  have "sorted (map (\<lambda>s. - priority s) (sort_key (\<lambda>s. - priority s) xs))"
    by (rule sorted_sort_key)
  then show ?thesis
    by (simp add: sort_values_priority_def sorted_map)
qed

text \<open>
  The call returns whenever no available doctor has a consultation time of zero.
\<close>

lemma collect_slots_returns:
  assumes "\<forall>d\<in>set ds. avg_consultation_time d \<noteq> 0"
  shows "\<exists>xs. collect_slots now appts ds = Inr xs"
  using assms by (induction ds) (auto simp: doctor_slots_def)

lemma calculate_optimal_slots_returns:
  assumes "\<forall>d\<in>set docs. is_available d \<longrightarrow> avg_consultation_time d \<noteq> 0"
  shows "\<exists>slots. calculate_optimal_slots now appts docs = Inr slots"
proof -
  from assms have "\<forall>d\<in>set (filter is_available docs). avg_consultation_time d \<noteq> 0" by simp
  from collect_slots_returns [OF this, of now appts] obtain xs
    where "collect_slots now appts (filter is_available docs) = Inr xs" by blast
  then show ?thesis by (simp add: calculate_optimal_slots_def Let_def)
qed

text \<open>
  C5. Every slot that \<^verbatim>\<open>calculate_optimal_slots\<close> returns lies on a weekday among the
  seven calendar days that start at the date of \<open>asOf\<close>, has an hour from 9 to 20, belongs
  to an available doctor, and lies in an hour in which the existing bookings of that doctor
  on that day are strictly fewer than \<open>max(1, floor(60 / averageConsultationMinutes))\<close>.
  When the appointments or the doctors are empty, or no doctor is available, the call
  returns the empty result and no error.
\<close>

theorem calculate_optimal_slots_window:
  "(calculate_optimal_slots now appts docs = Inr slots \<longrightarrow>
      (\<forall>s\<in>set slots.
         (\<exists>k<7. slot_date s = dt_date now + int k)
         \<and> weekday (slot_date s) < 5
         \<and> 9 \<le> slot_hour s \<and> slot_hour s < 21
         \<and> (\<exists>d\<in>set docs. is_available d \<and> doctor_id d = slot_doctor_id s
               \<and> int (bookings_in_hour appts (doctor_id d) (slot_date s) (slot_hour s))
                   < spec_slots_per_hour (avg_consultation_time d))))
   \<and> (appts = [] \<or> docs = [] \<or> (\<forall>d\<in>set docs. \<not> is_available d) \<longrightarrow>
        calculate_optimal_slots now appts docs = Inr [])"
proof (intro conjI impI ballI)
  fix s
  assume r: "calculate_optimal_slots now appts docs = Inr slots" and s: "s \<in> set slots"
  from calculate_optimal_slots_member [OF r s] obtain d k where d: "d \<in> set docs"
    "is_available d" "avg_consultation_time d \<noteq> 0" and k: "k < 7"
    and m: "s \<in> set (day_slots now appts d k)" by blast
  note f = day_slots_member [OF m]
  from f(1) k show "\<exists>k<7. slot_date s = dt_date now + int k" by blast
  show "weekday (slot_date s) < 5" by (rule f(2))
  from working_hours_cases [OF f(5)] show "9 \<le> slot_hour s" and "slot_hour s < 21"
    by arith+
  have "int (bookings_in_hour appts (doctor_id d) (slot_date s) (slot_hour s))
          < spec_slots_per_hour (avg_consultation_time d)"
    using f(6) slots_per_hour_spec [OF d(3)] by simp
  with d f(3) show "\<exists>d\<in>set docs. is_available d \<and> doctor_id d = slot_doctor_id s
      \<and> int (bookings_in_hour appts (doctor_id d) (slot_date s) (slot_hour s))
          < spec_slots_per_hour (avg_consultation_time d)"
    by auto
next
  assume "appts = [] \<or> docs = [] \<or> (\<forall>d\<in>set docs. \<not> is_available d)"
  then show "calculate_optimal_slots now appts docs = Inr []"
    by (auto simp: calculate_optimal_slots_def Let_def filter_empty_conv)
qed


lemma ex_slots_evaluated:
  "case calculate_optimal_slots ex_now ex_appts ex_docs of
     Inr xs \<Rightarrow> length xs = 56 \<and> ex_slot 738001 ''11:00'' 40 False \<in> set xs
   | Inl _ \<Rightarrow> False"
  by code_simp

theorem calculate_optimal_slots_window_witness:
  "(\<exists>slots. calculate_optimal_slots ex_now ex_appts ex_docs = Inr slots
      \<and> length slots = 56
      \<and> ex_slot 738001 ''11:00'' 40 False \<in> set slots
      \<and> weekday 738001 < 5
      \<and> slot_hour (ex_slot 738001 ''11:00'' 40 False) = 11
      \<and> (\<exists>d\<in>set ex_docs. is_available d \<and> doctor_id d = 1
            \<and> int (bookings_in_hour ex_appts (doctor_id d) 738001 11)
                < spec_slots_per_hour (avg_consultation_time d)))
   \<and> calculate_optimal_slots ex_now ex_appts [ex_doctor 2 ''Cardiology'' 20 False] = Inr []"
proof -
  let ?s = "ex_slot 738001 ''11:00'' 40 False"
  from ex_slots_evaluated obtain slots where
    r: "calculate_optimal_slots ex_now ex_appts ex_docs = Inr slots"
    and n: "length slots = 56" and s: "?s \<in> set slots"
    by (auto split: sum.splits)
  have h: "slot_hour ?s = 11"
    by (simp add: slot_hour_def ex_slot_def digit_value_def)
  from calculate_optimal_slots_window [of ex_now ex_appts ex_docs slots] r s
  have "weekday (slot_date ?s) < 5"
    and "\<exists>d\<in>set ex_docs. is_available d \<and> doctor_id d = slot_doctor_id ?s
      \<and> int (bookings_in_hour ex_appts (doctor_id d) (slot_date ?s) (slot_hour ?s))
          < spec_slots_per_hour (avg_consultation_time d)"
    by blast+
  then have a: "weekday 738001 < 5"
    and b: "\<exists>d\<in>set ex_docs. is_available d \<and> doctor_id d = 1
            \<and> int (bookings_in_hour ex_appts (doctor_id d) 738001 11)
                < spec_slots_per_hour (avg_consultation_time d)"
    unfolding h by (simp_all add: ex_slot_def)
  have "\<forall>d\<in>set [ex_doctor 2 ''Cardiology'' 20 False]. \<not> is_available d"
    by (simp add: ex_doctor_def)
  with calculate_optimal_slots_window
    [of ex_now ex_appts "[ex_doctor 2 ''Cardiology'' 20 False]" "[]"]
  have c: "calculate_optimal_slots ex_now ex_appts [ex_doctor 2 ''Cardiology'' 20 False] = Inr []"
    by blast
  from r n s a h b c show ?thesis by blast
qed

text \<open>
  C6. Every slot that \<^verbatim>\<open>calculate_optimal_slots\<close> returns carries the consultation
  time of its (available) doctor, is flagged as peak exactly when its hour is 17, 18 or 19,
  and has the priority 100 minus the consultation time in a peak hour and 50 otherwise,
  minus 10 times the backlog level of the doctor: the step table of the specification on
  the number of the doctor's appointments on the date of \<open>asOf\<close> at or after the time of
  \<open>asOf\<close>. The returned list is in descending order of priority.
\<close>

theorem calculate_optimal_slots_priority:
  "calculate_optimal_slots now appts docs = Inr slots \<longrightarrow>
     (\<forall>s\<in>set slots.
        (\<exists>d\<in>set docs. is_available d \<and> doctor_id d = slot_doctor_id s
           \<and> expected_duration s = avg_consultation_time d)
        \<and> is_peak_hour s = (17 \<le> slot_hour s \<and> slot_hour s < 20)
        \<and> priority s =
            (if 17 \<le> slot_hour s \<and> slot_hour s < 20 then 100 - expected_duration s else 50)
            - 10 * spec_backlog_level (remaining_today appts (slot_doctor_id s) now))
     \<and> sorted_wrt (\<lambda>a b. priority a \<ge> priority b) slots"
proof (intro conjI impI ballI)
  fix s
  assume r: "calculate_optimal_slots now appts docs = Inr slots" and s: "s \<in> set slots"
  from calculate_optimal_slots_member [OF r s] obtain d k where d: "d \<in> set docs"
    "is_available d" and m: "s \<in> set (day_slots now appts d k)" by blast
  note f = day_slots_member [OF m]
  from d f(3) f(4) show "\<exists>d\<in>set docs. is_available d \<and> doctor_id d = slot_doctor_id s
           \<and> expected_duration s = avg_consultation_time d" by auto
  show "is_peak_hour s = (17 \<le> slot_hour s \<and> slot_hour s < 20)" by (rule f(7))
  show "priority s =
            (if 17 \<le> slot_hour s \<and> slot_hour s < 20 then 100 - expected_duration s else 50)
            - 10 * spec_backlog_level (remaining_today appts (slot_doctor_id s) now)"
    using f(8) by (simp add: f(3) f(4) calculate_doctor_backlog_spec)
next
  assume r: "calculate_optimal_slots now appts docs = Inr slots"
  then have "slots = [] \<or> (\<exists>xs. slots = sort_values_priority xs)"
    by (auto simp: calculate_optimal_slots_def Let_def split: if_splits sum.splits)
  then show "sorted_wrt (\<lambda>a b. priority a \<ge> priority b) slots"
    by (auto simp: sort_values_priority_sorted)
qed


lemma ex_slots_priorities:
  "case calculate_optimal_slots ex_now ex_appts ex_docs of
     Inr xs \<Rightarrow> map priority xs = replicate 42 40 @ replicate 14 30
       \<and> ex_slot 738000 ''18:00'' 30 True \<in> set xs
   | Inl _ \<Rightarrow> False"
  by code_simp

theorem calculate_optimal_slots_priority_witness:
  "\<exists>slots. calculate_optimal_slots ex_now ex_appts ex_docs = Inr slots
      \<and> map priority slots = replicate 42 40 @ replicate 14 30
      \<and> ex_slot 738000 ''18:00'' 30 True \<in> set slots
      \<and> remaining_today ex_appts 1 ex_now = 3
      \<and> (30::int) = (100 - 60) - 10 * spec_backlog_level (remaining_today ex_appts 1 ex_now)
      \<and> sorted_wrt (\<lambda>a b. priority a \<ge> priority b) slots"
proof -
  let ?s = "ex_slot 738000 ''18:00'' 30 True"
  from ex_slots_priorities obtain slots where
    r: "calculate_optimal_slots ex_now ex_appts ex_docs = Inr slots"
    and p: "map priority slots = replicate 42 40 @ replicate 14 30" and s: "?s \<in> set slots"
    by (auto split: sum.splits)
  have h: "slot_hour ?s = 18"
    by (simp add: slot_hour_def ex_slot_def digit_value_def)
  have n: "remaining_today ex_appts 1 ex_now = 3"
    by (simp add: remaining_today_def ex_appts_def ex_appt_def ex_now_def time_ge_def time_lt_def)
  from calculate_optimal_slots_priority [of ex_now ex_appts ex_docs slots] r s
  have "priority ?s =
          (if 17 \<le> slot_hour ?s \<and> slot_hour ?s < 20 then 100 - expected_duration ?s else 50)
          - 10 * spec_backlog_level (remaining_today ex_appts (slot_doctor_id ?s) ex_now)"
    and srt: "sorted_wrt (\<lambda>a b. priority a \<ge> priority b) slots"
    by blast+
  then have "(30::int) = (100 - 60) - 10 * spec_backlog_level (remaining_today ex_appts 1 ex_now)"
    unfolding h by (simp add: ex_slot_def)
  with r p s n srt show ?thesis by blast
qed

subsection \<open>Recommendations\<close>

lemma overbooked_loop_rank:
  "overbooked_loop docs cs = Inr os \<Longrightarrow> f \<in> set os \<Longrightarrow> heuristic_rank f = 1"
proof (induction cs arbitrary: os)
  case Nil
  then show ?case by simp
next
  case (Cons c cs)
  obtain k n where c: "c = (k, n)" by (cases c)
  from Cons.prems(1) obtain recs others where
    o: "overbooked_loop docs cs = Inr others" and os: "os = recs @ others"
    and r: "\<forall>g\<in>set recs. heuristic_rank g = 1"
    unfolding c
    by (auto simp: Let_def split: list.splits if_splits sum.splits)
  from Cons.prems(2) os consider "f \<in> set recs" | "f \<in> set others" by auto
  then show ?case
  proof cases
    case 1
    with r show ?thesis by blast
  next
    case 2
    from Cons.IH [OF o 2] show ?thesis .
  qed
qed

lemma congestion_check_rank: "f \<in> set (congestion_check now appts) \<Longrightarrow> heuristic_rank f = 2"
  by (auto simp: congestion_check_def Let_def split: if_splits)

lemma underutilized_check_rank:
  "f \<in> set (underutilized_check today docs) \<Longrightarrow> heuristic_rank f = 3"
  by (auto simp: underutilized_check_def Let_def split: if_splits)

lemma early_arrival_check_rank:
  "f \<in> set (early_arrival_check today) \<Longrightarrow> heuristic_rank f = 4"
  by (auto simp: early_arrival_check_def Let_def split: if_splits)

lemma imbalance_check_rank:
  "f \<in> set (imbalance_check today docs) \<Longrightarrow> heuristic_rank f = 5"
  by (auto simp: imbalance_check_def Let_def split: if_splits)

lemma raw_findings_sorted:
  assumes "overbooked_loop docs cs = Inr os"
  shows "sorted (map heuristic_rank (raw_findings now appts docs os))"
    and "\<forall>f\<in>set (raw_findings now appts docs os). 1 \<le> heuristic_rank f \<and> heuristic_rank f \<le> 5"
proof -
  have 1: "\<forall>f\<in>set os. heuristic_rank f = 1"
    using overbooked_loop_rank [OF assms] by blast
  have 2: "\<forall>f\<in>set (congestion_check now appts). heuristic_rank f = 2"
    using congestion_check_rank by blast
  have 3: "\<forall>f\<in>set (underutilized_check (todays now appts) docs). heuristic_rank f = 3"
    using underutilized_check_rank by blast
  have 4: "\<forall>f\<in>set (early_arrival_check (todays now appts)). heuristic_rank f = 4"
    using early_arrival_check_rank by blast
  have 5: "\<forall>f\<in>set (imbalance_check (todays now appts) docs). heuristic_rank f = 5"
    using imbalance_check_rank by blast
  have const: "sorted (map heuristic_rank xs)" if "\<forall>f\<in>set xs. heuristic_rank f = n" for xs n
    using that by (induction xs) auto
  show "sorted (map heuristic_rank (raw_findings now appts docs os))"
    unfolding raw_findings_def map_append sorted_append
    using 1 2 3 4 5 const [OF 1] const [OF 2] const [OF 3] const [OF 4] const [OF 5]
    by auto
  show "\<forall>f\<in>set (raw_findings now appts docs os). 1 \<le> heuristic_rank f \<and> heuristic_rank f \<le> 5"
    unfolding raw_findings_def using 1 2 3 4 5 by auto
qed

lemma get_recommendations_unfold:
  assumes "appts \<noteq> []" and "docs \<noteq> []" and "todays now appts \<noteq> []"
  shows "get_recommendations now appts docs =
     (case overbooked_loop docs (value_counts (map appt_doctor_id (todays now appts))) of
        Inl e \<Rightarrow> Inl e
      | Inr os \<Rightarrow>
          if length (raw_findings now appts docs os) > 5
          then Inr (take 5 (raw_findings now appts docs os))
          else if length (raw_findings now appts docs os) = 0 then Inr [Balanced]
          else Inr (raw_findings now appts docs os))"
  using assms
  by (simp add: get_recommendations_def todays_def raw_findings_def Let_def split: sum.splits)

lemma get_recommendations_cases:
  assumes "appts \<noteq> []" and "docs \<noteq> []" and "todays now appts \<noteq> []"
    and "get_recommendations now appts docs = Inr fs"
  shows "\<exists>os. overbooked_loop docs (value_counts (map appt_doctor_id (todays now appts))) = Inr os
           \<and> fs = (if raw_findings now appts docs os = [] then [Balanced]
                    else take 5 (raw_findings now appts docs os))"
proof -
  note u = get_recommendations_unfold [OF assms(1-3)]
  from assms(4) obtain os where
    os: "overbooked_loop docs (value_counts (map appt_doctor_id (todays now appts))) = Inr os"
    unfolding u by (cases "overbooked_loop docs (value_counts (map appt_doctor_id (todays now appts)))") auto
  define gs where "gs = raw_findings now appts docs os"
  have r: "Inr fs = (if length gs > 5 then Inr (take 5 gs)
                     else if length gs = 0 then Inr [Balanced] else (Inr gs :: error + finding list))"
    using assms(4) unfolding u os gs_def by simp
  have "fs = (if gs = [] then [Balanced] else take 5 gs)"
  proof (cases "length gs > 5")
    case True
    with r show ?thesis by auto
  next
    case False
    show ?thesis
    proof (cases "gs = []")
      case True
      with r show ?thesis by simp
    next
      case False
      with \<open>\<not> length gs > 5\<close> r show ?thesis by simp
    qed
  qed
  with os show ?thesis unfolding gs_def by blast
qed

text \<open>
  The first check is the only step that can raise: the call returns whenever every
  appointment of today names a doctor of the table.
\<close>

lemma overbooked_loop_returns:
  assumes "\<forall>c\<in>set cs. fst c \<in> doctor_id ` set docs"
  shows "\<exists>os. overbooked_loop docs cs = Inr os"
  using assms
proof (induction cs)
  case Nil
  show ?case by simp
next
  case (Cons c cs)
  obtain k n where c: "c = (k, n)" by (cases c)
  from Cons.prems c obtain d where "d \<in> set docs" "doctor_id d = k" by auto
  then have "filter (\<lambda>d. doctor_id d = k) docs \<noteq> []"
    by (auto simp: filter_empty_conv)
  then obtain d0 ds where f: "filter (\<lambda>d. doctor_id d = k) docs = d0 # ds"
    by (cases "filter (\<lambda>d. doctor_id d = k) docs") auto
  from Cons obtain others where "overbooked_loop docs cs = Inr others" by auto
  with f show ?case unfolding c by (simp add: Let_def)
qed

lemma value_counts_keys:
  "c \<in> set (value_counts xs) \<Longrightarrow> fst c \<in> set xs"
  by (auto simp: value_counts_def unique_def)

lemma get_recommendations_returns:
  assumes "\<forall>a\<in>set (todays now appts). appt_doctor_id a \<in> doctor_id ` set docs"
  shows "\<exists>fs. get_recommendations now appts docs = Inr fs"
proof (cases "appts = [] \<or> docs = [] \<or> todays now appts = []")
  case True
  then show ?thesis by (auto simp: get_recommendations_def todays_def)
next
  case False
  then have ne: "appts \<noteq> []" "docs \<noteq> []" "todays now appts \<noteq> []" by simp_all
  have "\<forall>c\<in>set (value_counts (map appt_doctor_id (todays now appts))).
          fst c \<in> doctor_id ` set docs"
  proof
    fix c assume "c \<in> set (value_counts (map appt_doctor_id (todays now appts)))"
    then have "fst c \<in> set (map appt_doctor_id (todays now appts))"
      by (rule value_counts_keys)
    then obtain a where "a \<in> set (todays now appts)" "fst c = appt_doctor_id a" by auto
    with assms show "fst c \<in> doctor_id ` set docs" by simp
  qed
  from overbooked_loop_returns [OF this] obtain os where
    "overbooked_loop docs (value_counts (map appt_doctor_id (todays now appts))) = Inr os"
    by blast
  then show ?thesis
    unfolding get_recommendations_unfold [OF ne] by simp
qed

text \<open>
  C10. When the appointments or the doctors passed to \<^verbatim>\<open>get_recommendations\<close> are
  empty, the call returns exactly one finding, the insufficient data message, and neither
  the empty list nor an error.
\<close>

theorem get_recommendations_insufficient_data:
  "appts = [] \<or> docs = [] \<longrightarrow> get_recommendations now appts docs = Inr [InsufficientData]"
  by (simp add: get_recommendations_def)

theorem get_recommendations_insufficient_data_witness:
  "get_recommendations ex_now [] ex_docs = Inr [InsufficientData]
   \<and> get_recommendations ex_now ex_appts [] = Inr [InsufficientData]"
  using get_recommendations_insufficient_data [of "[]" ex_docs ex_now]
    get_recommendations_insufficient_data [of ex_appts "[]" ex_now]
  by simp

text \<open>
  C8, as the code has it. With appointments and doctors both non-empty:
  when no appointment is on the date of \<open>asOf\<close>, the call returns exactly the no
  appointments finding, whatever the other checks would do; otherwise, when it returns,
  the result is exactly the balanced finding if no check fired, and else the first five
  (or fewer) findings of the list that the checks produce in their fixed order
  (overbooking, congestion, underutilization, early arrivals, load imbalance): a prefix of
  that list, so in the order of the checks, and never longer than five. The call returns
  whenever every appointment of today names a doctor of the table, also when a doctor has
  an average consultation time of zero. With an empty collection the call returns the
  insufficient data finding instead, also on a day without appointments.
\<close>

theorem get_recommendations_result_shape:
  "(appts \<noteq> [] \<and> docs \<noteq> [] \<and> todays now appts = [] \<longrightarrow>
      get_recommendations now appts docs = Inr [NoAppointmentsToday])
   \<and> (appts \<noteq> [] \<and> docs \<noteq> [] \<and> todays now appts \<noteq> []
        \<and> get_recommendations now appts docs = Inr fs \<longrightarrow>
        (\<exists>os. overbooked_loop docs (value_counts (map appt_doctor_id (todays now appts))) = Inr os
           \<and> (raw_findings now appts docs os = [] \<longrightarrow> fs = [Balanced])
           \<and> (raw_findings now appts docs os \<noteq> [] \<longrightarrow>
                fs = take 5 (raw_findings now appts docs os)
                \<and> sorted (map heuristic_rank fs)
                \<and> (\<forall>f\<in>set fs. 1 \<le> heuristic_rank f \<and> heuristic_rank f \<le> 5)))
        \<and> 1 \<le> length fs \<and> length fs \<le> 5)
   \<and> ((\<forall>a\<in>set (todays now appts). appt_doctor_id a \<in> doctor_id ` set docs) \<longrightarrow>
        (\<exists>gs. get_recommendations now appts docs = Inr gs))"
proof (intro conjI impI)
  assume "\<forall>a\<in>set (todays now appts). appt_doctor_id a \<in> doctor_id ` set docs"
  then show "\<exists>gs. get_recommendations now appts docs = Inr gs"
    by (rule get_recommendations_returns)
next
  assume "appts \<noteq> [] \<and> docs \<noteq> [] \<and> todays now appts = []"
  then show "get_recommendations now appts docs = Inr [NoAppointmentsToday]"
    by (simp add: get_recommendations_def todays_def)
next
  assume a: "appts \<noteq> [] \<and> docs \<noteq> [] \<and> todays now appts \<noteq> []
        \<and> get_recommendations now appts docs = Inr fs"
  then obtain os where
    os: "overbooked_loop docs (value_counts (map appt_doctor_id (todays now appts))) = Inr os"
    and fs: "fs = (if raw_findings now appts docs os = [] then [Balanced]
                   else take 5 (raw_findings now appts docs os))"
    using get_recommendations_cases [of appts docs now fs] by blast
  let ?gs = "raw_findings now appts docs os"
  note srt = raw_findings_sorted [OF os, of now appts]
  have "sorted (map heuristic_rank (take 5 ?gs))"
    using srt(1) by (simp add: take_map [symmetric] sorted_wrt_take)
  moreover have "\<forall>f\<in>set (take 5 ?gs). 1 \<le> heuristic_rank f \<and> heuristic_rank f \<le> 5"
    using srt(2) by (meson in_set_takeD)
  ultimately show "\<exists>os. overbooked_loop docs (value_counts (map appt_doctor_id (todays now appts))) = Inr os
           \<and> (raw_findings now appts docs os = [] \<longrightarrow> fs = [Balanced])
           \<and> (raw_findings now appts docs os \<noteq> [] \<longrightarrow>
                fs = take 5 (raw_findings now appts docs os)
                \<and> sorted (map heuristic_rank fs)
                \<and> (\<forall>f\<in>set fs. 1 \<le> heuristic_rank f \<and> heuristic_rank f \<le> 5))"
    using os fs by auto
  show "1 \<le> length fs" using fs by (cases ?gs) auto
  show "length fs \<le> 5" using fs by auto
qed

lemma crowded_recommendations:
  "get_recommendations ex_now scenario_appts (scenario_docs @ idle_docs) =
     Inr [Underutilized ''Priya Rao'' ''Cardiology'' 3,
          Underutilized ''Priya Rao'' ''Dermatology'' 0,
          Underutilized ''Priya Rao'' ''Dermatology'' 0,
          Underutilized ''Priya Rao'' ''Dermatology'' 0,
          Underutilized ''Priya Rao'' ''Dermatology'' 0]"
  by code_simp

lemma balanced_recommendations:
  "get_recommendations ex_now [ex_appt 1 2 738000 11 0 False]
     [ex_doctor 2 ''Cardiology'' 20 False] = Inr [Balanced]"
  by code_simp

lemma zero_average_recommendations:
  "get_recommendations ex_now [ex_appt 1 2 738000 11 0 False]
     [ex_doctor 2 ''Cardiology'' 0 False] = Inr [Balanced]"
  by code_simp

lemma other_day_todays: "todays ex_now [ex_appt 1 1 737999 11 0 False] = []"
  by (simp add: todays_def ex_now_def ex_appt_def)

theorem get_recommendations_result_shape_witness:
  "get_recommendations ex_now [ex_appt 1 1 737999 11 0 False] ex_docs = Inr [NoAppointmentsToday]
   \<and> get_recommendations ex_now [ex_appt 1 2 738000 11 0 False]
        [ex_doctor 2 ''Cardiology'' 20 False] = Inr [Balanced]
   \<and> raw_findings ex_now [ex_appt 1 2 738000 11 0 False] [ex_doctor 2 ''Cardiology'' 20 False] [] = []
   \<and> get_recommendations ex_now [ex_appt 1 2 738000 11 0 False]
        [ex_doctor 2 ''Cardiology'' 0 False] = Inr [Balanced]
   \<and> (\<exists>gs. get_recommendations ex_now [ex_appt 1 2 738000 11 0 False]
          [ex_doctor 2 ''Cardiology'' 0 False] = Inr gs)
   \<and> (\<exists>fs os. get_recommendations ex_now scenario_appts (scenario_docs @ idle_docs) = Inr fs
         \<and> length (raw_findings ex_now scenario_appts (scenario_docs @ idle_docs) os) = 6
         \<and> fs = take 5 (raw_findings ex_now scenario_appts (scenario_docs @ idle_docs) os)
         \<and> length fs = 5
         \<and> sorted (map heuristic_rank fs))"
proof -
  have docs: "ex_docs \<noteq> []" by (simp add: ex_docs_def)
  from get_recommendations_result_shape
    [of "[ex_appt 1 1 737999 11 0 False]" ex_docs ex_now "[]"] other_day_todays docs
  have 1: "get_recommendations ex_now [ex_appt 1 1 737999 11 0 False] ex_docs
           = Inr [NoAppointmentsToday]"
    by blast
  have 2: "raw_findings ex_now [ex_appt 1 2 738000 11 0 False]
             [ex_doctor 2 ''Cardiology'' 20 False] [] = []"
    by code_simp
  let ?appts = scenario_appts and ?docs = "scenario_docs @ idle_docs"
  let ?fs = "[Underutilized ''Priya Rao'' ''Cardiology'' 3,
          Underutilized ''Priya Rao'' ''Dermatology'' 0,
          Underutilized ''Priya Rao'' ''Dermatology'' 0,
          Underutilized ''Priya Rao'' ''Dermatology'' 0,
          Underutilized ''Priya Rao'' ''Dermatology'' 0]"
  have t: "todays ex_now ?appts \<noteq> []" by code_simp
  have a: "?appts \<noteq> []" and d: "?docs \<noteq> []"
    by (simp_all add: scenario_appts_def scenario_docs_def)
  have ov: "overbooked_loop ?docs (value_counts (map appt_doctor_id (todays ex_now ?appts))) = Inr []"
    by code_simp
  have len: "length (raw_findings ex_now ?appts ?docs []) = 6"
    by code_simp
  from get_recommendations_result_shape [of ?appts ?docs ex_now ?fs] a d t crowded_recommendations
  obtain os where "overbooked_loop ?docs (value_counts (map appt_doctor_id (todays ex_now ?appts))) = Inr os"
    and r: "raw_findings ex_now ?appts ?docs os \<noteq> [] \<longrightarrow>
                ?fs = take 5 (raw_findings ex_now ?appts ?docs os)
                \<and> sorted (map heuristic_rank ?fs)"
    by blast
  with ov have os: "os = []" by simp
  from len have "raw_findings ex_now ?appts ?docs [] \<noteq> []" by auto
  with r os have "?fs = take 5 (raw_findings ex_now ?appts ?docs [])"
    and "sorted (map heuristic_rank ?fs)" by blast+
  with crowded_recommendations len have
    3: "\<exists>fs os. get_recommendations ex_now ?appts ?docs = Inr fs
         \<and> length (raw_findings ex_now ?appts ?docs os) = 6
         \<and> fs = take 5 (raw_findings ex_now ?appts ?docs os)
         \<and> length fs = 5
         \<and> sorted (map heuristic_rank fs)"
    by (intro exI [of _ ?fs] exI [of _ "[]"]) simp
  let ?a0 = "[ex_appt 1 2 738000 11 0 False]" and ?d0 = "[ex_doctor 2 ''Cardiology'' 0 False]"
  have "\<forall>a\<in>set (todays ex_now ?a0). appt_doctor_id a \<in> doctor_id ` set ?d0"
    by (simp add: todays_def ex_appt_def ex_doctor_def)
  with get_recommendations_result_shape [of ?a0 ?d0 ex_now "[]"]
  have 4: "\<exists>gs. get_recommendations ex_now ?a0 ?d0 = Inr gs" by blast
  from 1 balanced_recommendations 2 zero_average_recommendations 4 3 show ?thesis by blast
qed

theorem get_recommendations_empty_collection_counterexample:
  "todays ex_now [] = []
   \<and> get_recommendations ex_now [] ex_docs = Inr [InsufficientData]
   \<and> get_recommendations ex_now [] ex_docs \<noteq> Inr [NoAppointmentsToday]"
  by (simp add: todays_def get_recommendations_def)

subsection \<open>Specialty imbalance\<close>

lemma distinct_id_length_filter:
  assumes "distinct (map doctor_id docs)"
  shows "length (filter (\<lambda>d. doctor_id d = k \<and> P d) docs) =
         (if \<exists>d\<in>set docs. doctor_id d = k \<and> P d then 1 else 0)"
  using assms
proof (induction docs)
  case Nil
  then show ?case by simp
next
  case (Cons d ds)
  show ?case
  proof (cases "doctor_id d = k")
    case True
    with Cons.prems have "k \<notin> doctor_id ` set ds" by simp
    then have "\<forall>e\<in>set ds. doctor_id e \<noteq> k" by blast
    then have "filter (\<lambda>d. doctor_id d = k \<and> P d) ds = []"
      by (auto simp: filter_empty_conv)
    with True \<open>\<forall>e\<in>set ds. doctor_id e \<noteq> k\<close> show ?thesis by auto
  next
    case False
    with Cons show ?thesis by auto
  qed
qed

lemma joined_ids_of_appointment:
  "map (\<lambda>(a, s). appt_doctor_id a)
     (filter (\<lambda>(a, s). s = sp)
        (map (\<lambda>d. (a, specialty d)) (filter (\<lambda>d. doctor_id d = appt_doctor_id a) docs)))
   = replicate (length (filter (\<lambda>d. doctor_id d = appt_doctor_id a \<and> specialty d = sp) docs))
       (appt_doctor_id a)"
  by (induction docs) auto

lemma specialty_appointment_ids_distinct:
  assumes "distinct (map doctor_id docs)"
  shows "specialty_appointment_ids today docs sp =
         map appt_doctor_id
           (filter (\<lambda>a. \<exists>d\<in>set docs. doctor_id d = appt_doctor_id a \<and> specialty d = sp) today)"
proof (induction today)
  case Nil
  show ?case by (simp add: specialty_appointment_ids_def)
next
  case (Cons a as)
  have "specialty_appointment_ids (a # as) docs sp =
        replicate (length (filter (\<lambda>d. doctor_id d = appt_doctor_id a \<and> specialty d = sp) docs))
          (appt_doctor_id a) @ specialty_appointment_ids as docs sp"
    unfolding specialty_appointment_ids_def
    by (simp add: joined_ids_of_appointment)
  then show ?case
    by (simp add: Cons.IH distinct_id_length_filter [OF assms])
qed

lemma set_value_counts:
  "set (map snd (value_counts xs)) = (\<lambda>k. length (filter (\<lambda>x. x = k) xs)) ` set xs"
  by (auto simp: value_counts_def unique_def image_iff)

lemma length_value_counts: "length (value_counts xs) = card (set xs)"
  by (simp add: value_counts_def unique_def length_remdups_card_conv)


lemma specialty_value_counts:
  assumes dist: "distinct (map doctor_id docs)"
    and busy: "\<forall>d\<in>set docs. specialty d = sp \<longrightarrow> 1 \<le> today_count now appts (doctor_id d)"
  shows "set (specialty_appointment_ids (todays now appts) docs sp)
         = doctor_id ` set (filter (\<lambda>d. specialty d = sp) docs)"
    and "set (map snd (value_counts (specialty_appointment_ids (todays now appts) docs sp)))
         = set (specialty_counts now appts docs sp)"
proof -
  let ?today = "todays now appts"
  let ?ids = "specialty_appointment_ids ?today docs sp"
  let ?in_sp = "\<lambda>k. \<exists>d\<in>set docs. doctor_id d = k \<and> specialty d = sp"
  have ids: "?ids = map appt_doctor_id (filter (\<lambda>a. ?in_sp (appt_doctor_id a)) ?today)"
    by (rule specialty_appointment_ids_distinct [OF dist])
  have count: "length (filter (\<lambda>x. x = k) ?ids) = today_count now appts k" if "?in_sp k" for k
  proof -
    have "filter (\<lambda>a. appt_doctor_id a = k \<and> ?in_sp (appt_doctor_id a)) ?today
          = filter (\<lambda>a. appt_doctor_id a = k) ?today"
      using that by (intro filter_cong) auto
    then show ?thesis
      by (simp add: ids today_count_def filter_map comp_def conj_commute)
  qed
  show set_ids: "set ?ids = doctor_id ` set (filter (\<lambda>d. specialty d = sp) docs)"
  proof (intro set_eqI iffI)
    fix k assume "k \<in> set ?ids"
    then obtain d where "d \<in> set docs" "doctor_id d = k" "specialty d = sp"
      unfolding ids by auto
    then have "d \<in> set (filter (\<lambda>d. specialty d = sp) docs)" by simp
    with \<open>doctor_id d = k\<close> show "k \<in> doctor_id ` set (filter (\<lambda>d. specialty d = sp) docs)"
      by blast
  next
    fix k assume "k \<in> doctor_id ` set (filter (\<lambda>d. specialty d = sp) docs)"
    then obtain d where d: "d \<in> set docs" "specialty d = sp" "doctor_id d = k" by auto
    with busy have "1 \<le> today_count now appts k" by blast
    then have "filter (\<lambda>a. appt_doctor_id a = k) ?today \<noteq> []"
      unfolding today_count_def by auto
    then obtain a where "a \<in> set ?today" "appt_doctor_id a = k"
      by (auto simp: filter_empty_conv)
    with d show "k \<in> set ?ids" unfolding ids by force
  qed
  have "set (map snd (value_counts ?ids)) = (\<lambda>k. length (filter (\<lambda>x. x = k) ?ids)) ` set ?ids"
    by (rule set_value_counts)
  also have "\<dots> = (\<lambda>k. today_count now appts k) ` set ?ids"
  proof (rule image_cong [OF refl])
    fix k assume "k \<in> set ?ids"
    then have "?in_sp k" unfolding set_ids by auto
    then show "length (filter (\<lambda>x. x = k) ?ids) = today_count now appts k" by (rule count)
  qed
  also have "\<dots> = set (specialty_counts now appts docs sp)"
    unfolding set_ids specialty_counts_def by (simp add: image_image)
  finally show "set (map snd (value_counts ?ids)) = set (specialty_counts now appts docs sp)" .
qed

lemma imbalance_check_member:
  assumes "length (filter (\<lambda>d. specialty d = sp) docs) > 1"
    and "specialty_appointment_ids today docs sp \<noteq> []"
    and "Max (set (map snd (value_counts (specialty_appointment_ids today docs sp))))
           > 2 * Min (set (map snd (value_counts (specialty_appointment_ids today docs sp))))"
  shows "LoadImbalance sp \<in> set (imbalance_check today docs)"
proof -
  from assms(1) obtain d where "d \<in> set (filter (\<lambda>d. specialty d = sp) docs)"
    by (cases "filter (\<lambda>d. specialty d = sp) docs") auto
  then have "d \<in> set docs" "specialty d = sp" by simp_all
  then have "sp \<in> specialty ` set docs" by blast
  then have "sp \<in> set (unique (map specialty docs))"
    by (simp add: unique_def)
  with assms show ?thesis
    unfolding imbalance_check_def Let_def
    by (auto intro!: bexI [of _ sp])
qed

lemma spec_imbalance_generated:
  assumes dist: "distinct (map doctor_id docs)"
    and busy: "\<forall>d\<in>set docs. specialty d = sp \<longrightarrow> 1 \<le> today_count now appts (doctor_id d)"
    and imb: "spec_imbalanced now appts docs sp"
  shows "LoadImbalance sp \<in> set (imbalance_check (todays now appts) docs)"
proof -
  note vc = specialty_value_counts [OF dist busy]
  from imb have n: "length (filter (\<lambda>d. specialty d = sp) docs) \<ge> 2"
    and m: "Max (set (specialty_counts now appts docs sp))
              > 2 * Min (set (specialty_counts now appts docs sp))"
    by (simp_all add: spec_imbalanced_def)
  from n obtain d where "d \<in> set (filter (\<lambda>d. specialty d = sp) docs)"
    by (cases "filter (\<lambda>d. specialty d = sp) docs") auto
  then have "doctor_id d \<in> set (specialty_appointment_ids (todays now appts) docs sp)"
    unfolding vc(1) by (rule imageI)
  then have ne: "specialty_appointment_ids (todays now appts) docs sp \<noteq> []" by auto
  show ?thesis
    by (rule imbalance_check_member) (use n ne m in \<open>simp_all only: vc(2)\<close>, simp)
qed


lemma imbalance_returned_or_truncated:
  assumes r: "get_recommendations now appts docs = Inr fs"
    and dist: "distinct (map doctor_id docs)"
    and busy: "\<forall>d\<in>set docs. specialty d = sp \<longrightarrow> 1 \<le> today_count now appts (doctor_id d)"
    and imb: "spec_imbalanced now appts docs sp"
  shows "\<exists>os. overbooked_loop docs (value_counts (map appt_doctor_id (todays now appts))) = Inr os
           \<and> LoadImbalance sp \<in> set (raw_findings now appts docs os)
           \<and> fs = take 5 (raw_findings now appts docs os)"
proof -
  from imb obtain d where d: "d \<in> set (filter (\<lambda>d. specialty d = sp) docs)"
    unfolding spec_imbalanced_def
    by (cases "filter (\<lambda>d. specialty d = sp) docs") auto
  then have docs: "docs \<noteq> []" by auto
  from d busy have "1 \<le> today_count now appts (doctor_id d)" by simp
  then have today: "todays now appts \<noteq> []" unfolding today_count_def by auto
  then have appts: "appts \<noteq> []" unfolding todays_def by auto
  from get_recommendations_cases [OF appts docs today r] obtain os where
    os: "overbooked_loop docs (value_counts (map appt_doctor_id (todays now appts))) = Inr os"
    and fs: "fs = (if raw_findings now appts docs os = [] then [Balanced]
                   else take 5 (raw_findings now appts docs os))"
    by blast
  have m: "LoadImbalance sp \<in> set (raw_findings now appts docs os)"
    using spec_imbalance_generated [OF dist busy imb] by (simp add: raw_findings_def)
  then have "raw_findings now appts docs os \<noteq> []" by auto
  with fs have "fs = take 5 (raw_findings now appts docs os)" by simp
  with os m show ?thesis by blast
qed

lemma overbooked_loop_length:
  "overbooked_loop docs cs = Inr os \<Longrightarrow> length os \<le> length cs"
proof (induction cs arbitrary: os)
  case Nil
  then show ?case by simp
next
  case (Cons c cs)
  obtain k n where c: "c = (k, n)" by (cases c)
  from Cons.prems obtain recs others where
    o: "overbooked_loop docs cs = Inr others" and os: "os = recs @ others"
    and r: "length recs \<le> 1"
    unfolding c
    by (auto simp: Let_def split: list.splits if_splits sum.splits)
  from Cons.IH [OF o] os r show ?case by simp
qed

lemma overbooked_loop_known:
  "overbooked_loop docs cs = Inr os \<Longrightarrow> (k, n) \<in> set cs \<Longrightarrow> k \<in> doctor_id ` set docs"
proof (induction cs arbitrary: os)
  case Nil
  then show ?case by simp
next
  case (Cons c cs)
  obtain k' n' where c: "c = (k', n')" by (cases c)
  from Cons.prems(1) obtain others where
    o: "overbooked_loop docs cs = Inr others"
    and f: "filter (\<lambda>d. doctor_id d = k') docs \<noteq> []"
    unfolding c
    by (auto simp: Let_def split: list.splits if_splits sum.splits)
  from f obtain d where "d \<in> set docs" "doctor_id d = k'"
    by (auto simp: filter_empty_conv)
  then have k': "k' \<in> doctor_id ` set docs" by blast
  from Cons.prems(2) c consider "(k, n) = (k', n')" | "(k, n) \<in> set cs" by auto
  then show ?case
  proof cases
    case 1
    with k' show ?thesis by simp
  next
    case 2
    from Cons.IH [OF o 2] show ?thesis .
  qed
qed

lemma today_ids_known:
  assumes "overbooked_loop docs (value_counts (map appt_doctor_id today)) = Inr os"
    and "a \<in> set today"
  shows "appt_doctor_id a \<in> doctor_id ` set docs"
proof -
  let ?xs = "map appt_doctor_id today"
  from assms(2) have "appt_doctor_id a \<in> set ?xs" by simp
  then have "(appt_doctor_id a, length (filter (\<lambda>x. x = appt_doctor_id a) ?xs))
               \<in> set (value_counts ?xs)"
    by (simp add: value_counts_def unique_def)
  from overbooked_loop_known [OF assms(1) this] show ?thesis .
qed

lemma two_doctor_scenario:
  assumes r: "get_recommendations now appts [d1, d2] = Inr fs"
    and ne: "doctor_id d1 \<noteq> doctor_id d2"
    and sp: "specialty d1 = sp" "specialty d2 = sp"
    and c1: "today_count now appts (doctor_id d1) = 10"
    and c2: "today_count now appts (doctor_id d2) = 3"
  shows "LoadImbalance sp \<in> set fs"
proof -
  let ?docs = "[d1, d2]"
  let ?today = "todays now appts"
  have dist: "distinct (map doctor_id ?docs)" using ne by simp
  have busy: "\<forall>d\<in>set ?docs. specialty d = sp \<longrightarrow> 1 \<le> today_count now appts (doctor_id d)"
    using c1 c2 by simp
  have counts: "specialty_counts now appts ?docs sp = [10, 3]"
    using sp c1 c2 by (simp add: specialty_counts_def)
  have imb: "spec_imbalanced now appts ?docs sp"
    unfolding spec_imbalanced_def counts using sp by simp
  from imbalance_returned_or_truncated [OF r dist busy imb] obtain os where
    os: "overbooked_loop ?docs (value_counts (map appt_doctor_id ?today)) = Inr os"
    and m: "LoadImbalance sp \<in> set (raw_findings now appts ?docs os)"
    and fs: "fs = take 5 (raw_findings now appts ?docs os)"
    by blast
  have known: "appt_doctor_id a = doctor_id d1 \<or> appt_doctor_id a = doctor_id d2"
    if "a \<in> set ?today" for a
    using today_ids_known [OF os that] by auto
  \<comment> \<open>check 1: at most one finding for each of the two doctors\<close>
  have "set (map appt_doctor_id ?today) \<subseteq> {doctor_id d1, doctor_id d2}"
    using known by auto
  then have "card (set (map appt_doctor_id ?today)) \<le> card {doctor_id d1, doctor_id d2}"
    by (intro card_mono) simp_all
  also have "\<dots> \<le> 2" by (simp add: card_insert_if)
  finally have "length (value_counts (map appt_doctor_id ?today)) \<le> 2"
    by (simp add: length_value_counts)
  with overbooked_loop_length [OF os] have l1: "length os \<le> 2" by simp
  \<comment> \<open>check 2: thirteen appointments today, not more than thirty upcoming\<close>
  have "filter (\<lambda>a. appt_doctor_id a \<noteq> doctor_id d1) ?today
        = filter (\<lambda>a. appt_doctor_id a = doctor_id d2) ?today"
    using known ne by (intro filter_cong) auto
  then have "length ?today = today_count now appts (doctor_id d1) + today_count now appts (doctor_id d2)"
    unfolding today_count_def
    using sum_length_filter_compl [of "\<lambda>a. appt_doctor_id a = doctor_id d1" ?today]
    by simp
  then have total: "length ?today = 13" using c1 c2 by simp
  have "length (filter (\<lambda>a. appointment_date a = dt_date now
                              \<and> time_ge (appointment_time a) (dt_time now)
                              \<and> time_lt (appointment_time a) (add_hours (dt_time now) 2)) appts)
        = length (filter (\<lambda>a. time_ge (appointment_time a) (dt_time now)
                              \<and> time_lt (appointment_time a) (add_hours (dt_time now) 2)) ?today)"
    by (simp add: todays_def conj_commute conj_left_commute cong: conj_cong)
  also have "\<dots> \<le> length ?today" by (rule length_filter_le)
  finally have l2: "congestion_check now appts = []"
    using total by (simp add: congestion_check_def Let_def)
  \<comment> \<open>check 3: the doctor with ten appointments is not underutilized\<close>
  have l3: "length (underutilized_check ?today ?docs) \<le> 1"
    using c1 by (simp add: underutilized_check_def today_count_def Let_def)
  have l4: "length (early_arrival_check ?today) \<le> 1"
    by (simp add: early_arrival_check_def Let_def)
  have "unique (map specialty ?docs) = [sp]"
    using sp by (simp add: unique_def)
  then have l5: "length (imbalance_check ?today ?docs) \<le> 1"
    by (simp add: imbalance_check_def Let_def)
  from l1 l2 l3 l4 l5 have "length (raw_findings now appts ?docs os) \<le> 5"
    by (simp add: raw_findings_def)
  with fs have "fs = raw_findings now appts ?docs os" by simp
  with m show ?thesis by simp
qed

text \<open>
  Where the fifth check does what the specification says. Let the doctor ids be distinct
  and let every doctor of a specialty have at least one appointment today. If the
  specialty has at least two doctors and the largest of their numbers of appointments
  today exceeds twice the smallest, then, when \<^verbatim>\<open>get_recommendations\<close> returns, the
  load imbalance finding of the specialty is in the list the checks produce, and the
  result is the first five findings of that list. When the doctors are exactly two doctors
  of one specialty with ten and three appointments today, the finding is returned.
\<close>

lemma load_imbalance_generated:
  "(get_recommendations now appts docs = Inr fs
      \<and> distinct (map doctor_id docs)
      \<and> (\<forall>d\<in>set docs. specialty d = sp \<longrightarrow> 1 \<le> today_count now appts (doctor_id d))
      \<and> spec_imbalanced now appts docs sp
    \<longrightarrow> (\<exists>os. overbooked_loop docs (value_counts (map appt_doctor_id (todays now appts))) = Inr os
            \<and> LoadImbalance sp \<in> set (raw_findings now appts docs os)
            \<and> fs = take 5 (raw_findings now appts docs os))
        \<and> (LoadImbalance sp \<in> set fs \<or> length fs = 5))
   \<and> (get_recommendations now appts [d1, d2] = Inr fs2
        \<and> doctor_id d1 \<noteq> doctor_id d2 \<and> specialty d1 = sp \<and> specialty d2 = sp
        \<and> today_count now appts (doctor_id d1) = 10
        \<and> today_count now appts (doctor_id d2) = 3
      \<longrightarrow> LoadImbalance sp \<in> set fs2)"
proof (intro conjI impI)
  assume a: "get_recommendations now appts docs = Inr fs
      \<and> distinct (map doctor_id docs)
      \<and> (\<forall>d\<in>set docs. specialty d = sp \<longrightarrow> 1 \<le> today_count now appts (doctor_id d))
      \<and> spec_imbalanced now appts docs sp"
  then obtain os where
    os: "overbooked_loop docs (value_counts (map appt_doctor_id (todays now appts))) = Inr os"
    and m: "LoadImbalance sp \<in> set (raw_findings now appts docs os)"
    and fs: "fs = take 5 (raw_findings now appts docs os)"
    using imbalance_returned_or_truncated [of now appts docs fs sp] by blast
  then show "\<exists>os. overbooked_loop docs (value_counts (map appt_doctor_id (todays now appts))) = Inr os
            \<and> LoadImbalance sp \<in> set (raw_findings now appts docs os)
            \<and> fs = take 5 (raw_findings now appts docs os)"
    by blast
  show "LoadImbalance sp \<in> set fs \<or> length fs = 5"
  proof (cases "length (raw_findings now appts docs os) \<le> 5")
    case True
    with fs m show ?thesis by simp
  next
    case False
    with fs show ?thesis by simp
  qed
next
  assume "get_recommendations now appts [d1, d2] = Inr fs2
        \<and> doctor_id d1 \<noteq> doctor_id d2 \<and> specialty d1 = sp \<and> specialty d2 = sp
        \<and> today_count now appts (doctor_id d1) = 10
        \<and> today_count now appts (doctor_id d2) = 3"
  then show "LoadImbalance sp \<in> set fs2"
    using two_doctor_scenario [of now appts d1 d2 fs2 sp] by blast
qed

lemma scenario_counts:
  "today_count ex_now scenario_appts 1 = 10" "today_count ex_now scenario_appts 2 = 3"
  by code_simp+

lemma scenario_recommendations:
  "get_recommendations ex_now scenario_appts scenario_docs =
     Inr [Underutilized ''Priya Rao'' ''Cardiology'' 3, LoadImbalance ''Cardiology'']"
  by code_simp

lemma scenario_imbalanced:
  "spec_imbalanced ex_now scenario_appts (scenario_docs @ idle_docs) ''Cardiology''"
  by code_simp

lemma load_imbalance_generated_example:
  "get_recommendations ex_now scenario_appts scenario_docs =
     Inr [Underutilized ''Priya Rao'' ''Cardiology'' 3, LoadImbalance ''Cardiology'']
   \<and> today_count ex_now scenario_appts 1 = 10
   \<and> today_count ex_now scenario_appts 2 = 3
   \<and> LoadImbalance ''Cardiology''
        \<in> set [Underutilized ''Priya Rao'' ''Cardiology'' 3, LoadImbalance ''Cardiology'']
   \<and> spec_imbalanced ex_now scenario_appts scenario_docs ''Cardiology''
   \<and> (\<exists>os. LoadImbalance ''Cardiology'' \<in> set (raw_findings ex_now scenario_appts scenario_docs os)
         \<and> [Underutilized ''Priya Rao'' ''Cardiology'' 3, LoadImbalance ''Cardiology'']
             = take 5 (raw_findings ex_now scenario_appts scenario_docs os))"
proof -
  let ?fs = "[Underutilized ''Priya Rao'' ''Cardiology'' 3, LoadImbalance ''Cardiology'']"
  let ?d1 = "ex_doctor 1 ''Cardiology'' 20 True" and ?d2 = "ex_doctor 2 ''Cardiology'' 20 True"
  have docs: "scenario_docs = [?d1, ?d2]" by (simp add: scenario_docs_def)
  have ids: "doctor_id ?d1 = 1" "doctor_id ?d2 = 2" "specialty ?d1 = ''Cardiology''"
    "specialty ?d2 = ''Cardiology''"
    by (simp_all add: ex_doctor_def)
  have r: "get_recommendations ex_now scenario_appts [?d1, ?d2] = Inr ?fs"
    using scenario_recommendations unfolding docs .
  have 1: "LoadImbalance ''Cardiology'' \<in> set ?fs"
    using load_imbalance_generated
      [of ex_now scenario_appts "[]" "[]" "''Cardiology''" ?d1 ?d2 ?fs]
      r scenario_counts ids
    by simp
  have dist: "distinct (map doctor_id scenario_docs)"
    by (simp add: docs ids)
  have busy: "\<forall>d\<in>set scenario_docs. specialty d = ''Cardiology''
                \<longrightarrow> 1 \<le> today_count ex_now scenario_appts (doctor_id d)"
    by (simp add: docs ids scenario_counts)
  have imb: "spec_imbalanced ex_now scenario_appts scenario_docs ''Cardiology''"
    by code_simp
  from load_imbalance_generated
      [of ex_now scenario_appts scenario_docs ?fs "''Cardiology''" ?d1 ?d2 "[]"]
      scenario_recommendations dist busy imb
  have 2: "\<exists>os. LoadImbalance ''Cardiology'' \<in> set (raw_findings ex_now scenario_appts scenario_docs os)
         \<and> ?fs = take 5 (raw_findings ex_now scenario_appts scenario_docs os)"
    by blast
  from scenario_recommendations scenario_counts 1 imb 2 show ?thesis by blast
qed

text \<open>
  The result is cut to its first five findings: with four idle dermatologists beside the two
  cardiologists, five underutilization findings fill it and the load imbalance finding is
  not returned.
\<close>

lemma load_imbalance_truncated_example:
  "length (filter (\<lambda>d. specialty d = ''Cardiology'') (scenario_docs @ idle_docs)) = 2
   \<and> specialty_counts ex_now scenario_appts (scenario_docs @ idle_docs) ''Cardiology'' = [10, 3]
   \<and> spec_imbalanced ex_now scenario_appts (scenario_docs @ idle_docs) ''Cardiology''
   \<and> (\<exists>fs. get_recommendations ex_now scenario_appts (scenario_docs @ idle_docs) = Inr fs
          \<and> LoadImbalance ''Cardiology'' \<notin> set fs)"
proof -
  have 1: "length (filter (\<lambda>d. specialty d = ''Cardiology'') (scenario_docs @ idle_docs)) = 2"
    by code_simp
  have 2: "specialty_counts ex_now scenario_appts (scenario_docs @ idle_docs) ''Cardiology''
           = [10, 3]"
    by code_simp
  from crowded_recommendations have
    3: "\<exists>fs. get_recommendations ex_now scenario_appts (scenario_docs @ idle_docs) = Inr fs
          \<and> LoadImbalance ''Cardiology'' \<notin> set fs"
    by simp
  from 1 2 scenario_imbalanced 3 show ?thesis by blast
qed

text \<open>
  C7. The specification asks for the load imbalance finding of every specialty with at
  least two doctors whose largest number of appointments today exceeds twice the smallest.
  The fifth check takes the largest and the smallest number from the counts of the
  appointments joined with the doctors, and a doctor without any appointment today has no
  entry there. With two cardiologists, one with ten appointments today and one with none,
  the specialty has two doctors and 10 exceeds twice 0, yet the check produces nothing:
  the call returns the underutilization finding of the idle doctor alone.
\<close>

theorem load_imbalance_idle_doctor_missed:
  "length (filter (\<lambda>d. specialty d = ''Cardiology'') scenario_docs) = 2
   \<and> today_count ex_now busy_doctor_appts 1 = 10
   \<and> today_count ex_now busy_doctor_appts 2 = 0
   \<and> specialty_counts ex_now busy_doctor_appts scenario_docs ''Cardiology'' = [10, 0]
   \<and> spec_imbalanced ex_now busy_doctor_appts scenario_docs ''Cardiology''
   \<and> imbalance_check (todays ex_now busy_doctor_appts) scenario_docs = []
   \<and> get_recommendations ex_now busy_doctor_appts scenario_docs
       = Inr [Underutilized ''Priya Rao'' ''Cardiology'' 0]"
proof -
  have 1: "length (filter (\<lambda>d. specialty d = ''Cardiology'') scenario_docs) = 2"
    by code_simp
  have 2: "today_count ex_now busy_doctor_appts 1 = 10"
    and 3: "today_count ex_now busy_doctor_appts 2 = 0"
    by code_simp+
  have 4: "specialty_counts ex_now busy_doctor_appts scenario_docs ''Cardiology'' = [10, 0]"
    by code_simp
  have 5: "spec_imbalanced ex_now busy_doctor_appts scenario_docs ''Cardiology''"
    by code_simp
  have 6: "imbalance_check (todays ex_now busy_doctor_appts) scenario_docs = []"
    by code_simp
  have 7: "get_recommendations ex_now busy_doctor_appts scenario_docs
       = Inr [Underutilized ''Priya Rao'' ''Cardiology'' 0]"
    by code_simp
  from 1 2 3 4 5 6 7 show ?thesis by blast
qed

subsection \<open>Wait time predictor\<close>

text \<open>
  C9. \<^verbatim>\<open>predict\<close> returns a number that is at least 0 for every state of the predictor
  and every feature matrix; it returns exactly 30 when no model is trained, as in a fresh
  predictor that found no stored model; and when the prediction of the stored pipeline
  raises, or gives an empty array, the error is caught and the call returns 30. Otherwise it
  returns the first prediction, clamped at 0.
\<close>

theorem predict_nonnegative_default:
  "0 \<le> predict lib self fs
   \<and> (\<not> model_trained self \<or> model self = None \<longrightarrow> predict lib self fs = 30)
   \<and> predict lib (init_predictor None) fs = 30
   \<and> (model_trained self \<and> model self = Some p \<and> pipeline_predict lib p fs = Inl e
        \<longrightarrow> predict lib self fs = 30)
   \<and> (model_trained self \<and> model self = Some p \<and> pipeline_predict lib p fs = Inr []
        \<longrightarrow> predict lib self fs = 30)
   \<and> (model_trained self \<and> model self = Some p \<and> pipeline_predict lib p fs = Inr (x # xs)
        \<longrightarrow> predict lib self fs = max 0 x)"
  by (auto simp: predict_def init_predictor_def split: sum.splits list.splits)

lemma predict_examples:
  "predict ex_sklearn (init_predictor (Some 25)) ex_features = 25"
  "predict ex_sklearn (init_predictor (Some (-4))) ex_features = 0"
  "predict ex_sklearn (init_predictor None) ex_features = 30"
  "predict ex_sklearn \<lparr> model = Some Unfitted, model_trained = True,
       feature_importance = None \<rparr> ex_features = 30"
  "pipeline_predict ex_sklearn Unfitted ex_features = Inl NotFittedError"
  by code_simp+

theorem predict_nonnegative_default_witness:
  "predict ex_sklearn (init_predictor None) ex_features = 30
   \<and> \<not> model_trained (init_predictor None :: int predictor)
   \<and> pipeline_predict ex_sklearn Unfitted ex_features = Inl NotFittedError
   \<and> predict ex_sklearn \<lparr> model = Some Unfitted, model_trained = True,
        feature_importance = None \<rparr> ex_features = 30
   \<and> predict ex_sklearn (init_predictor (Some (-4))) ex_features = 0
   \<and> 0 \<le> predict ex_sklearn (init_predictor (Some (-4))) ex_features"
proof -
  have u: "\<not> model_trained (init_predictor None :: int predictor)"
    by (simp add: init_predictor_def)
  from predict_nonnegative_default
    [of ex_sklearn "init_predictor None" ex_features Unfitted NotFittedError 0 "[]"] u
  have 1: "predict ex_sklearn (init_predictor None) ex_features = 30" by blast
  let ?s = "\<lparr> model = Some Unfitted, model_trained = True,
        feature_importance = None \<rparr> :: int predictor"
  from predict_nonnegative_default
    [of ex_sklearn ?s ex_features Unfitted NotFittedError 0 "[]"] predict_examples(5)
  have 2: "predict ex_sklearn ?s ex_features = 30" by simp
  from predict_nonnegative_default
    [of ex_sklearn "init_predictor (Some (-4))" ex_features Unfitted NotFittedError 0 "[]"]
  have 3: "0 \<le> predict ex_sklearn (init_predictor (Some (-4))) ex_features" by blast
  from 1 u predict_examples(5) 2 predict_examples(2) 3 show ?thesis by blast
qed

text \<open>
  C2, as the code has it. A \<^verbatim>\<open>train\<close> call that returns failure, as it does for empty
  appointments or doctors, leaves the predictor unchanged. A call that returns success has
  stored the pipeline fitted on the training part of the data and marked it trained. A call
  that ends with an exception after the input checks has already replaced the stored
  pipeline, by the unfitted one (when the split or the fit raised) or by the new fitted one
  (when saving raised), and leaves the trained flag as it was; \<^verbatim>\<open>predict\<close> on an unfitted
  pipeline returns the default 30. So the stored model survives a failure return, but not
  an abort.
\<close>

theorem train_replaces_model:
  "(appts = [] \<or> docs = [] \<longrightarrow> train lib self appts docs = (Inr False, self))
   \<and> (fst (train lib self appts docs) = Inr False \<longrightarrow> snd (train lib self appts docs) = self)
   \<and> (fst (train lib self appts docs) = Inr True \<longrightarrow>
        (\<exists>training testing m.
            train_test_split lib (preprocess_data appts docs) = Some (training, testing)
            \<and> fit lib training = Some m
            \<and> model (snd (train lib self appts docs)) = Some (Fitted m))
        \<and> model_trained (snd (train lib self appts docs)))
   \<and> (fst (train lib self appts docs) = Inl e \<longrightarrow>
        model_trained (snd (train lib self appts docs)) = model_trained self
        \<and> (model (snd (train lib self appts docs)) = Some Unfitted
            \<or> (\<exists>m. model (snd (train lib self appts docs)) = Some (Fitted m) \<and> \<not> dump lib m)))
   \<and> (model (snd (train lib self appts docs)) = Some Unfitted \<longrightarrow>
        predict lib (snd (train lib self appts docs)) fs = 30)"
proof (intro conjI impI)
  assume "appts = [] \<or> docs = []"
  then show "train lib self appts docs = (Inr False, self)"
    by (auto simp: train_def)
next
  assume "fst (train lib self appts docs) = Inr False"
  then show "snd (train lib self appts docs) = self"
    by (auto simp: train_def Let_def split: if_splits option.splits prod.splits)
next
  assume a: "fst (train lib self appts docs) = Inr True"
  then show "\<exists>training testing m.
            train_test_split lib (preprocess_data appts docs) = Some (training, testing)
            \<and> fit lib training = Some m
            \<and> model (snd (train lib self appts docs)) = Some (Fitted m)"
    by (auto simp: train_def Let_def split: if_splits option.splits prod.splits)
  from a show "model_trained (snd (train lib self appts docs))"
    by (auto simp: train_def Let_def split: if_splits option.splits prod.splits)
next
  assume a: "fst (train lib self appts docs) = Inl e"
  then show "model_trained (snd (train lib self appts docs)) = model_trained self"
    by (auto simp: train_def Let_def split: if_splits option.splits prod.splits)
  from a show "model (snd (train lib self appts docs)) = Some Unfitted
            \<or> (\<exists>m. model (snd (train lib self appts docs)) = Some (Fitted m) \<and> \<not> dump lib m)"
    by (auto simp: train_def Let_def split: if_splits option.splits prod.splits)
next
  assume "model (snd (train lib self appts docs)) = Some Unfitted"
  then show "predict lib (snd (train lib self appts docs)) fs = 30"
    by (simp add: predict_def pipeline_predict_def)
qed

lemma train_examples:
  "train ex_sklearn (init_predictor (Some 25)) [ex_appt 1 1 738000 11 0 False] ex_docs
     = (Inl ValueError,
        \<lparr> model = Some Unfitted, model_trained = True, feature_importance = None \<rparr>)"
  "train ex_sklearn (init_predictor None) ex_appts ex_docs
     = (Inr True,
        \<lparr> model = Some (Fitted 12), model_trained = True,
          feature_importance = Some [(''hour_of_day'', 1)] \<rparr>)"
  by code_simp+

theorem train_abort_loses_model_counterexample:
  "fst (train ex_sklearn (init_predictor (Some 25)) [ex_appt 1 1 738000 11 0 False] ex_docs)
     = Inl ValueError
   \<and> model (init_predictor (Some 25) :: int predictor) = Some (Fitted 25)
   \<and> model (snd (train ex_sklearn (init_predictor (Some 25))
                   [ex_appt 1 1 738000 11 0 False] ex_docs)) = Some Unfitted
   \<and> predict ex_sklearn (init_predictor (Some 25)) ex_features = 25
   \<and> predict ex_sklearn (snd (train ex_sklearn (init_predictor (Some 25))
                                [ex_appt 1 1 738000 11 0 False] ex_docs)) ex_features = 30"
proof -
  have "model (init_predictor (Some 25) :: int predictor) = Some (Fitted 25)"
    by (simp add: init_predictor_def)
  then show ?thesis
    by (simp add: train_examples predict_examples)
qed

theorem train_replaces_model_witness:
  "train ex_sklearn (init_predictor (Some 25)) [] ex_docs = (Inr False, init_predictor (Some 25))
   \<and> fst (train ex_sklearn (init_predictor None) ex_appts ex_docs) = Inr True
   \<and> (\<exists>m. model (snd (train ex_sklearn (init_predictor None) ex_appts ex_docs)) = Some (Fitted m))
   \<and> model_trained (snd (train ex_sklearn (init_predictor None) ex_appts ex_docs))
   \<and> fst (train ex_sklearn (init_predictor (Some 25)) [ex_appt 1 1 738000 11 0 False] ex_docs)
       = Inl ValueError
   \<and> predict ex_sklearn (snd (train ex_sklearn (init_predictor (Some 25))
                                [ex_appt 1 1 738000 11 0 False] ex_docs)) ex_features = 30"
proof -
  note t1 = train_replaces_model
    [of "[]" ex_docs ex_sklearn "init_predictor (Some 25)" ValueError ex_features]
  have 1: "train ex_sklearn (init_predictor (Some 25)) [] ex_docs
           = (Inr False, init_predictor (Some 25))"
    using t1 by blast
  have s: "fst (train ex_sklearn (init_predictor None) ex_appts ex_docs) = Inr True"
    by (simp add: train_examples)
  note t2 = train_replaces_model
    [of ex_appts ex_docs ex_sklearn "init_predictor None" ValueError ex_features]
  from t2 s have 2: "\<exists>m. model (snd (train ex_sklearn (init_predictor None) ex_appts ex_docs))
                        = Some (Fitted m)"
    and 3: "model_trained (snd (train ex_sklearn (init_predictor None) ex_appts ex_docs))"
    by blast+
  let ?one = "[ex_appt 1 1 738000 11 0 False]"
  have e: "fst (train ex_sklearn (init_predictor (Some 25)) ?one ex_docs) = Inl ValueError"
    and u: "model (snd (train ex_sklearn (init_predictor (Some 25)) ?one ex_docs)) = Some Unfitted"
    by (simp_all add: train_examples)
  note t3 = train_replaces_model
    [of ?one ex_docs ex_sklearn "init_predictor (Some 25)" ValueError ex_features]
  from t3 u have 4: "predict ex_sklearn (snd (train ex_sklearn (init_predictor (Some 25))
                                ?one ex_docs)) ex_features = 30"
    by blast
  from 1 s 2 3 e 4 show ?thesis by blast
qed





end
